theory Spec2Isabelle
  imports Complex_Main "HOL-Library.Log_Nat" "HOL-Library.Multiset"
begin

section \<open>JavaScript numbers\<close>

text \<open>
  Every \<^verbatim>\<open>number\<close> of the store (balances, amounts, weight changes, identifiers,
  timestamps) is an IEEE 754 binary64 value. A finite non-zero value and \<open>+0\<close> are
  \<open>Num q\<close> with \<open>q\<close> the rational the double denotes; \<open>-0\<close>, the infinities and NaN are
  constructors of their own.
\<close>

datatype number = Num rat | NegZero | PosInf | NegInf | NaN

definition pow2 :: "int \<Rightarrow> rat" where
  "pow2 k = (if 0 \<le> k then 2 ^ nat k else 1 / 2 ^ nat (- k))"

text \<open>\<open>ilog2 a\<close> is the binary exponent of a positive rational: \<open>2^(ilog2 a) \<le> a < 2^(ilog2 a + 1)\<close>.\<close>

definition ilog2 :: "rat \<Rightarrow> int" where
  "ilog2 a = (if 1 \<le> a then bitlen \<lfloor>a\<rfloor> - 1 else - bitlen (\<lceil>1 / a\<rceil> - 1))"

definition roundTiesToEven :: "rat \<Rightarrow> int" where
  "roundTiesToEven m =
     (let f = \<lfloor>m\<rfloor>; r = m - of_int f
      in if r < 1 / 2 then f
         else if 1 / 2 < r then f + 1
         else if even f then f else f + 1)"

text \<open>
  Rounding of an exact non-zero result to binary64 (round to nearest, ties to even):
  53 significant bits, least exponent \<open>-1074\<close> (subnormals), overflow to an infinity at
  \<open>2^1024\<close>, underflow to a zero that keeps the sign.
\<close>

definition round64 :: "rat \<Rightarrow> number" where
  "round64 q =
     (let a = \<bar>q\<bar>;
          e = max (ilog2 a) (- 1022) - 52;
          r = of_int (roundTiesToEven (a / pow2 e)) * pow2 e
      in if pow2 1024 \<le> r then (if q < 0 then NegInf else PosInf)
         else if r = 0 then (if q < 0 then NegZero else Num 0)
         else Num (if q < 0 then - r else r))"

text \<open>A \<open>number\<close> is a genuine double when it is not a rational that rounding would move.\<close>

definition is_double :: "number \<Rightarrow> bool" where
  "is_double x = (case x of Num q \<Rightarrow> q = 0 \<or> round64 q = Num q | _ \<Rightarrow> True)"

definition is_zero :: "number \<Rightarrow> bool" where
  "is_zero x = (x = Num 0 \<or> x = NegZero)"

definition is_inf :: "number \<Rightarrow> bool" where
  "is_inf x = (x = PosInf \<or> x = NegInf)"

definition is_neg :: "number \<Rightarrow> bool" where
  "is_neg x = (case x of Num q \<Rightarrow> q < 0 | NegZero \<Rightarrow> True | NegInf \<Rightarrow> True | _ \<Rightarrow> False)"

text \<open>The rational a finite number denotes (\<open>0\<close> for both zeros; unused for the others).\<close>

definition val :: "number \<Rightarrow> rat" where
  "val x = (case x of Num q \<Rightarrow> q | _ \<Rightarrow> 0)"

definition signed_zero :: "bool \<Rightarrow> number" where
  "signed_zero neg = (if neg then NegZero else Num 0)"

definition signed_inf :: "bool \<Rightarrow> number" where
  "signed_inf neg = (if neg then NegInf else PosInf)"

text \<open>The operator \<^verbatim>\<open>+\<close> on numbers.\<close>

fun fadd :: "number \<Rightarrow> number \<Rightarrow> number" where
  "fadd NaN _ = NaN"
| "fadd _ NaN = NaN"
| "fadd PosInf NegInf = NaN"
| "fadd NegInf PosInf = NaN"
| "fadd PosInf _ = PosInf"
| "fadd _ PosInf = PosInf"
| "fadd NegInf _ = NegInf"
| "fadd _ NegInf = NegInf"
| "fadd NegZero y = y"
| "fadd x NegZero = x"
| "fadd (Num a) (Num b) = (if a + b = 0 then Num 0 else round64 (a + b))"

text \<open>The operator \<^verbatim>\<open>/\<close> on numbers; it never raises: a zero divisor gives an infinity or NaN.\<close>

definition fdiv :: "number \<Rightarrow> number \<Rightarrow> number" where
  "fdiv x y =
     (if x = NaN \<or> y = NaN then NaN
      else if is_inf x then (if is_inf y then NaN else signed_inf (is_neg x \<noteq> is_neg y))
      else if is_inf y then signed_zero (is_neg x \<noteq> is_neg y)
      else if is_zero y then (if is_zero x then NaN else signed_inf (is_neg x \<noteq> is_neg y))
      else if is_zero x then signed_zero (is_neg x \<noteq> is_neg y)
      else round64 (val x / val y))"

text \<open>\<^verbatim>\<open>Math.abs\<close>.\<close>

definition fabs :: "number \<Rightarrow> number" where
  "fabs x = (case x of Num q \<Rightarrow> Num \<bar>q\<bar> | NegZero \<Rightarrow> Num 0 | PosInf \<Rightarrow> PosInf
                     | NegInf \<Rightarrow> PosInf | NaN \<Rightarrow> NaN)"

text \<open>The operators \<^verbatim>\<open><\<close> and \<^verbatim>\<open>>\<close>: false as soon as one side is NaN; the zeros are equal.\<close>

fun fless :: "number \<Rightarrow> number \<Rightarrow> bool" where
  "fless NaN _ = False"
| "fless _ NaN = False"
| "fless PosInf _ = False"
| "fless _ NegInf = False"
| "fless NegInf _ = True"
| "fless _ PosInf = True"
| "fless x y = (val x < val y)"

definition fgt :: "number \<Rightarrow> number \<Rightarrow> bool" where
  "fgt x y = fless y x"

text \<open>Truthiness, as the operator \<^verbatim>\<open>||\<close> tests it.\<close>

definition truthy_number :: "number \<Rightarrow> bool" where
  "truthy_number x = (x \<noteq> NaN \<and> \<not> is_zero x)"

definition truthy_string :: "string \<Rightarrow> bool" where
  "truthy_string s = (s \<noteq> [])"

text \<open>
  What an optional field of a local model holds at run time: \<^verbatim>\<open>undefined\<close>, \<^verbatim>\<open>null\<close> or
  a value. The types of \<^verbatim>\<open>db.ts\<close> expect undefined or a value; null is what the wire sends
  for an empty column, so a mapper that passed the column through would store \<open>Null\<close>.
\<close>

datatype 'a optional = Undefined | Null | Defined 'a

text \<open>A nullable column of a wire row (\<open>None\<close> is null) as the JavaScript value it is.\<close>

definition of_nullable :: "'a option \<Rightarrow> 'a optional" where
  "of_nullable v = (case v of None \<Rightarrow> Null | Some x \<Rightarrow> Defined x)"

text \<open>Undefined and null are falsy; a value is truthy as its type says.\<close>

definition truthy_value :: "('a \<Rightarrow> bool) \<Rightarrow> 'a optional \<Rightarrow> bool" where
  "truthy_value truthy v = (case v of Defined x \<Rightarrow> truthy x | _ \<Rightarrow> False)"

text \<open>\<^verbatim>\<open>v || undefined\<close>: the left operand when it is truthy, undefined otherwise.\<close>

definition or_undefined :: "('a \<Rightarrow> bool) \<Rightarrow> 'a optional \<Rightarrow> 'a optional" where
  "or_undefined truthy v = (if truthy_value truthy v then v else Undefined)"

text \<open>
  A number lies on the grid of exponent \<open>e\<close> when it is finite and an integer multiple of
  \<open>2^e\<close>; sums of such numbers need no rounding while they stay below \<open>2^(e+53)\<close>.
\<close>

definition on_grid :: "int \<Rightarrow> number \<Rightarrow> bool" where
  "on_grid e x = (case x of Num q \<Rightarrow> of_int \<lfloor>q / pow2 e\<rfloor> = q / pow2 e | NegZero \<Rightarrow> True
                          | _ \<Rightarrow> False)"


section \<open>Dates\<close>

text \<open>
  \<^verbatim>\<open>new Date(s).getTime()\<close>: the parser of the host (\<^verbatim>\<open>Date.parse\<close>) is a parameter,
  giving the milliseconds since the epoch or nothing for a string it rejects; the
  constructor clips the time value to \<open>\<plusminus>8.64e15\<close> and \<^verbatim>\<open>getTime\<close> of an invalid date is NaN.
\<close>

definition Date_getTime :: "(string \<Rightarrow> int option) \<Rightarrow> string \<Rightarrow> number" where
  "Date_getTime parse s =
     (case parse s of None \<Rightarrow> NaN
      | Some ms \<Rightarrow> if \<bar>ms\<bar> \<le> 8640000000000000 then Num (of_int ms) else NaN)"

section \<open>Data model (db.ts, supabaseClient.ts)\<close>

text \<open>Wire rows: timestamps are ISO strings, optional columns are nullable (\<open>None\<close> is null).\<close>

record AccountRow =
  id :: string
  user_id :: string
  name :: string
  type :: string
  current_balance :: number
  created_at :: string

record TransactionRow =
  id :: number
  user_id :: string
  account_id :: string
  type :: string
  amount :: number
  weight_change :: number
  "notes" :: "string option"
  category :: "string option"
  timestamp :: string
  created_at :: string
  related_transaction_id :: "number option"

text \<open>Local models: timestamps are numbers, optional fields are \<open>optional\<close> values.\<close>

record Account =
  id :: string
  user_id :: string
  name :: string
  type :: string
  current_balance :: number
  created_at :: number

text \<open>
  \<^verbatim>\<open>TransactionType\<close> is a union of string literals and the mapper only casts to it
  (\<^verbatim>\<open>as TransactionType\<close>), so at run time the field holds whatever string the row has.
\<close>

record Transaction =
  id :: number
  timestamp :: number
  type :: string
  amount :: number
  weightChange :: number
  "notes" :: "string optional"
  account_id :: string
  category :: "string optional"
  user_id :: string
  created_at :: number
  related_transaction_id :: "number optional"

section \<open>Mapper functions (store.ts)\<close>

definition mapAccount :: "(string \<Rightarrow> int option) \<Rightarrow> AccountRow \<Rightarrow> Account" where
  "mapAccount parse account =
     \<lparr> Account.id = AccountRow.id account,
       Account.user_id = AccountRow.user_id account,
       Account.name = AccountRow.name account,
       Account.type = AccountRow.type account,
       Account.current_balance = AccountRow.current_balance account,
       Account.created_at = Date_getTime parse (AccountRow.created_at account) \<rparr>"

definition mapTransaction :: "(string \<Rightarrow> int option) \<Rightarrow> TransactionRow \<Rightarrow> Transaction" where
  "mapTransaction parse transaction =
     \<lparr> Transaction.id = TransactionRow.id transaction,
       Transaction.timestamp = Date_getTime parse (TransactionRow.timestamp transaction),
       Transaction.type = TransactionRow.type transaction,
       Transaction.amount = TransactionRow.amount transaction,
       Transaction.weightChange = TransactionRow.weight_change transaction,
       Transaction.notes =
         or_undefined truthy_string (of_nullable (TransactionRow.notes transaction)),
       Transaction.account_id = TransactionRow.account_id transaction,
       Transaction.category =
         or_undefined truthy_string (of_nullable (TransactionRow.category transaction)),
       Transaction.user_id = TransactionRow.user_id transaction,
       Transaction.created_at = Date_getTime parse (TransactionRow.created_at transaction),
       Transaction.related_transaction_id =
         or_undefined truthy_number
           (of_nullable (TransactionRow.related_transaction_id transaction)) \<rparr>"

section \<open>Store state and summaries (store.ts)\<close>

record User =
  id :: string
  email :: string

text \<open>
  The session of the auth library; \<^verbatim>\<open>session?.user\<close> is tested for truthiness by the
  store, so the field is optional here.
\<close>

record Session =
  access_token :: string
  user :: "User option"

record AppState =
  session :: "Session option"
  user :: "User option"
  isSessionLoading :: bool
  accounts :: "Account list"
  transactions :: "Transaction list"
  isLoading :: bool
  overallNetCash :: number
  weightOnHand :: number
  dollarPerGramRatio :: "number option"

definition sales :: "Transaction list \<Rightarrow> Transaction list" where
  "sales txs = filter (\<lambda>tx. Transaction.type tx = ''Sale'') txs"

definition totalSalesAmount :: "Transaction list \<Rightarrow> number" where
  "totalSalesAmount txs = foldl (\<lambda>sum tx. fadd sum (Transaction.amount tx)) (Num 0) (sales txs)"

definition totalSalesWeight :: "Transaction list \<Rightarrow> number" where
  "totalSalesWeight txs =
     foldl (\<lambda>sum tx. fadd sum (fabs (Transaction.weightChange tx))) (Num 0) (sales txs)"

definition recalculateSummaries :: "AppState \<Rightarrow> AppState" where
  "recalculateSummaries s =
     s\<lparr> overallNetCash :=
          foldl (\<lambda>sum acc. fadd sum (Account.current_balance acc)) (Num 0) (accounts s),
        weightOnHand :=
          foldl (\<lambda>sum tx. fadd sum (Transaction.weightChange tx)) (Num 0) (transactions s),
        dollarPerGramRatio :=
          (if fgt (totalSalesWeight (transactions s)) (Num 0)
           then Some (fdiv (totalSalesAmount (transactions s)) (totalSalesWeight (transactions s)))
           else None) \<rparr>"

text \<open>The initial state of the store.\<close>

definition initialState :: AppState where
  "initialState =
     \<lparr> session = None, user = None, isSessionLoading = True, accounts = [], transactions = [],
       isLoading = False, overallNetCash = Num 0, weightOnHand = Num 0,
       dollarPerGramRatio = None \<rparr>"

section \<open>Payloads of the mutations (db.ts)\<close>

text \<open>
  \<^verbatim>\<open>TransactionInsert\<close>: a transaction without the columns the store fills in, as the
  caller passes it (\<open>None\<close> is a field left out).
\<close>

record TransactionInsert =
  type :: string
  amount :: number
  weightChange :: number
  "notes" :: "string option"
  account_id :: string
  category :: "string option"
  related_transaction_id :: "number option"
  timestamp :: "string option"

text \<open>\<^verbatim>\<open>TransactionUpdate = Partial<TransactionInsert>\<close>: every field may be missing.\<close>

record TransactionUpdate =
  type :: "string option"
  amount :: "number option"
  weightChange :: "number option"
  "notes" :: "string option"
  account_id :: "string option"
  category :: "string option"
  related_transaction_id :: "number option"
  timestamp :: "string option"

section \<open>The remote store client and the effects of an action\<close>

text \<open>
  The hosted service is outside the repository. Every call the store makes is recorded as
  a \<open>request\<close>; what the service answers during one run of an action is given by an
  \<open>env\<close>. A call settles as a promise: it is rejected with an error, or fulfilled with a
  response object holding the data and a nullable \<^verbatim>\<open>error\<close>.
\<close>

datatype error = Error string

datatype 'a settled = Fulfilled 'a | Rejected error

datatype 'd response = Response 'd "error option"

datatype request =
    Auth_getSession
  | Auth_signOut
  | Select_accounts string
  | Select_transactions string
  | Insert_transaction TransactionInsert string string
  | Update_transaction TransactionUpdate number
  | Delete_transaction number

text \<open>
  \<open>Select_accounts uid\<close> is \<^verbatim>\<open>from("accounts").select("*").eq("user_id", uid).order("name")\<close>,
  \<open>Select_transactions uid\<close> the same on \<^verbatim>\<open>transactions\<close> ordered by timestamp descending;
  \<open>Insert_transaction d uid ts\<close> inserts the fields of \<open>d\<close> with \<^verbatim>\<open>user_id\<close> and
  \<^verbatim>\<open>timestamp\<close> overridden by \<open>uid\<close> and \<open>ts\<close>.
\<close>

record env =
  Date_parse :: "string \<Rightarrow> int option"
  now_ISOString :: string
  getSession_result :: "Session option response settled"
  signOut_result :: "unit response settled"
  select_accounts_result :: "AccountRow list option response settled"
  select_transactions_result :: "TransactionRow list option response settled"
  mutation_result :: "unit response settled"
  accounts_settle_first :: bool

text \<open>The messages of \<^verbatim>\<open>console.error\<close>, each with the error caught.\<close>

datatype log_entry =
    Session_check_failed error
  | Sign_out_failed error
  | Failed_to_fetch_accounts error
  | Failed_to_fetch_transactions error
  | Failed_to_add_transaction error
  | Failed_to_update_transaction number error
  | Failed_to_delete_transaction number error

record world =
  state :: AppState
  requests :: "request list"
  console :: "log_entry list"

text \<open>
  An action runs on the world and completes normally with a value or abruptly with a
  thrown error; the state changes made before a throw stay. JavaScript is
  single-threaded, so the code between two \<^verbatim>\<open>await\<close>s is one step. One action is modelled at a
  time: nothing else runs while it waits for the service, except inside the joint fetch of
  accounts and transactions, whose two responses may arrive in either order
  (\<open>accounts_settle_first\<close>).
\<close>

datatype 'a completion = Normal 'a | Throw error

type_synonym 'a prog = "world \<Rightarrow> 'a completion \<times> world"

definition ret :: "'a \<Rightarrow> 'a prog" where
  "ret v w = (Normal v, w)"

definition throw :: "error \<Rightarrow> 'a prog" where
  "throw e w = (Throw e, w)"

definition bind_prog :: "'a prog \<Rightarrow> ('a \<Rightarrow> 'b prog) \<Rightarrow> 'b prog" where
  "bind_prog m f w = (case m w of (Normal v, w') \<Rightarrow> f v w' | (Throw e, w') \<Rightarrow> (Throw e, w'))"

definition try_catch :: "'a prog \<Rightarrow> (error \<Rightarrow> 'a prog) \<Rightarrow> 'a prog" where
  "try_catch body handler w =
     (case body w of (Normal v, w') \<Rightarrow> (Normal v, w') | (Throw e, w') \<Rightarrow> handler e w')"

text \<open>The finalizer runs on every path; its own throw replaces the completion.\<close>

definition try_catch_finally :: "'a prog \<Rightarrow> (error \<Rightarrow> 'a prog) \<Rightarrow> unit prog \<Rightarrow> 'a prog" where
  "try_catch_finally body handler finalizer w =
     (case try_catch body handler w of
        (c, w') \<Rightarrow> (case finalizer w' of (Normal _, w'') \<Rightarrow> (c, w'') | (Throw e, w'') \<Rightarrow> (Throw e, w'')))"

text \<open>\<^verbatim>\<open>set(...)\<close> of the store, as a function on the state.\<close>

definition set_state :: "(AppState \<Rightarrow> AppState) \<Rightarrow> unit prog" where
  "set_state f w = (Normal (), w\<lparr> state := f (state w) \<rparr>)"

definition console_error :: "log_entry \<Rightarrow> unit prog" where
  "console_error m w = (Normal (), w\<lparr> console := console w @ [m] \<rparr>)"

definition send :: "request \<Rightarrow> unit prog" where
  "send r w = (Normal (), w\<lparr> requests := requests w @ [r] \<rparr>)"

definition await :: "'a settled \<Rightarrow> 'a prog" where
  "await p w = (case p of Fulfilled v \<Rightarrow> (Normal v, w) | Rejected e \<Rightarrow> (Throw e, w))"

text \<open>\<^verbatim>\<open>if (error) throw error\<close> on a response.\<close>

definition throw_if_error :: "'d response \<Rightarrow> 'd prog" where
  "throw_if_error r = (case r of Response d None \<Rightarrow> ret d | Response d (Some e) \<Rightarrow> throw e)"

text \<open>
  The error a remote call makes the action throw, if any: the rejection of its promise, or
  the error of its response. The call fails when there is one.
\<close>

definition thrown :: "'d response settled \<Rightarrow> error option" where
  "thrown p = (case p of Rejected e \<Rightarrow> Some e | Fulfilled (Response _ err) \<Rightarrow> err)"

definition failed :: "'d response settled \<Rightarrow> bool" where
  "failed p = (thrown p \<noteq> None)"

text \<open>
  \<^verbatim>\<open>Promise.all\<close> of two async calls that have both started: each runs to its end when
  its response arrives, in the order given; the joint promise rejects if one of them does.
\<close>

definition join2 :: "unit prog \<Rightarrow> unit prog \<Rightarrow> unit prog" where
  "join2 first second w =
     (case first w of
        (c1, w1) \<Rightarrow> (case second w1 of
           (c2, w2) \<Rightarrow> (case c1 of Throw e \<Rightarrow> (Throw e, w2) | Normal _ \<Rightarrow> (c2, w2))))"

section \<open>Actions of the store (store.ts)\<close>

text \<open>\<^verbatim>\<open>session?.user ?? null\<close>.\<close>

definition session_user :: "Session option \<Rightarrow> User option" where
  "session_user sess = (case sess of None \<Rightarrow> None | Some x \<Rightarrow> Session.user x)"

definition setSession :: "Session option \<Rightarrow> AppState \<Rightarrow> AppState" where
  "setSession sess s = s\<lparr> session := sess, user := session_user sess \<rparr>"

text \<open>
  A fetch is an async function with one \<^verbatim>\<open>await\<close>. Its first half runs at the call: it
  reads the user, returns at once when there is none, and otherwise raises the loading flag
  and sends the query. Its second half runs when the response arrives.
\<close>

definition fetchAccounts_begin :: "world \<Rightarrow> bool \<times> world" where
  "fetchAccounts_begin w =
     (case AppState.user (state w) of
        None \<Rightarrow> (False, w)
      | Some u \<Rightarrow>
          (True, w\<lparr> state := (state w)\<lparr> isLoading := True \<rparr>,
                    requests := requests w @ [Select_accounts (User.id u)] \<rparr>))"

definition fetchAccounts_resume :: "env \<Rightarrow> unit prog" where
  "fetchAccounts_resume env =
     try_catch_finally
       (bind_prog (await (select_accounts_result env)) (\<lambda>r.
        bind_prog (throw_if_error r) (\<lambda>data.
        bind_prog (set_state (\<lambda>s. s\<lparr> accounts :=
                     (case data of None \<Rightarrow> [] | Some rows \<Rightarrow> map (mapAccount (Date_parse env)) rows) \<rparr>))
          (\<lambda>_. set_state recalculateSummaries))))
       (\<lambda>e. bind_prog (console_error (Failed_to_fetch_accounts e))
          (\<lambda>_. set_state (\<lambda>s. s\<lparr> accounts := [] \<rparr>)))
       (set_state (\<lambda>s. s\<lparr> isLoading := False \<rparr>))"

definition fetchAccounts :: "env \<Rightarrow> unit prog" where
  "fetchAccounts env w =
     (case fetchAccounts_begin w of
        (False, w') \<Rightarrow> (Normal (), w')
      | (True, w') \<Rightarrow> fetchAccounts_resume env w')"

definition fetchTransactions_begin :: "world \<Rightarrow> bool \<times> world" where
  "fetchTransactions_begin w =
     (case AppState.user (state w) of
        None \<Rightarrow> (False, w)
      | Some u \<Rightarrow>
          (True, w\<lparr> state := (state w)\<lparr> isLoading := True \<rparr>,
                    requests := requests w @ [Select_transactions (User.id u)] \<rparr>))"

definition fetchTransactions_resume :: "env \<Rightarrow> unit prog" where
  "fetchTransactions_resume env =
     try_catch_finally
       (bind_prog (await (select_transactions_result env)) (\<lambda>r.
        bind_prog (throw_if_error r) (\<lambda>data.
        bind_prog (set_state (\<lambda>s. s\<lparr> transactions :=
                     (case data of None \<Rightarrow> []
                      | Some rows \<Rightarrow> map (mapTransaction (Date_parse env)) rows) \<rparr>))
          (\<lambda>_. set_state recalculateSummaries))))
       (\<lambda>e. bind_prog (console_error (Failed_to_fetch_transactions e))
          (\<lambda>_. set_state (\<lambda>s. s\<lparr> transactions := [] \<rparr>)))
       (set_state (\<lambda>s. s\<lparr> isLoading := False \<rparr>))"

definition fetchTransactions :: "env \<Rightarrow> unit prog" where
  "fetchTransactions env w =
     (case fetchTransactions_begin w of
        (False, w') \<Rightarrow> (Normal (), w')
      | (True, w') \<Rightarrow> fetchTransactions_resume env w')"

text \<open>
  \<^verbatim>\<open>Promise.all([get().fetchAccounts(), get().fetchTransactions()])\<close>: both first halves
  run at the call, accounts first; the second halves run as the responses arrive. Both
  fetches catch every error, so the joint promise is always fulfilled
  (\<open>fetchAccountsAndTransactions_Normal\<close> below).
\<close>

definition fetchAccountsAndTransactions :: "env \<Rightarrow> unit prog" where
  "fetchAccountsAndTransactions env w =
     (case fetchAccounts_begin w of
        (pa, w1) \<Rightarrow> (case fetchTransactions_begin w1 of
           (pt, w2) \<Rightarrow>
             (let ra = (if pa then fetchAccounts_resume env else ret ());
                  rt = (if pt then fetchTransactions_resume env else ret ())
              in if accounts_settle_first env then join2 ra rt w2 else join2 rt ra w2)))"

text \<open>
  \<open>checkSession\<close> stores the session with the same object
  \<^verbatim>\<open>{ session, user: session?.user ?? null }\<close> as \<open>setSession\<close>.
\<close>

definition checkSession :: "env \<Rightarrow> unit prog" where
  "checkSession env =
     bind_prog (set_state (\<lambda>s. s\<lparr> isSessionLoading := True \<rparr>)) (\<lambda>_.
     try_catch_finally
       (bind_prog (send Auth_getSession) (\<lambda>_.
        bind_prog (await (getSession_result env)) (\<lambda>r.
        bind_prog (throw_if_error r) (\<lambda>sess.
        bind_prog (set_state (setSession sess)) (\<lambda>_.
          if session_user sess \<noteq> None
          then fetchAccountsAndTransactions env
          else set_state (\<lambda>s. s\<lparr> accounts := [], transactions := [] \<rparr>))))))
       (\<lambda>e. console_error (Session_check_failed e))
       (set_state (\<lambda>s. s\<lparr> isSessionLoading := False \<rparr>)))"

definition signOut :: "env \<Rightarrow> unit prog" where
  "signOut env =
     try_catch
       (bind_prog (send Auth_signOut) (\<lambda>_.
        bind_prog (await (signOut_result env)) (\<lambda>r.
        bind_prog (throw_if_error r) (\<lambda>_.
          set_state (\<lambda>s. s\<lparr> session := None, user := None, accounts := [], transactions := [] \<rparr>)))))
       (\<lambda>e. console_error (Sign_out_failed e))"

text \<open>\<^verbatim>\<open>transactionData.timestamp || new Date().toISOString()\<close>.\<close>

definition insert_timestamp :: "env \<Rightarrow> TransactionInsert \<Rightarrow> string" where
  "insert_timestamp env transactionData =
     (case TransactionInsert.timestamp transactionData of
        Some ts \<Rightarrow> if truthy_string ts then ts else now_ISOString env
      | None \<Rightarrow> now_ISOString env)"

definition addTransaction :: "env \<Rightarrow> TransactionInsert \<Rightarrow> bool prog" where
  "addTransaction env transactionData w =
     (case AppState.user (state w) of
        None \<Rightarrow> (Normal False, w)
      | Some u \<Rightarrow>
          bind_prog (set_state (\<lambda>s. s\<lparr> isLoading := True \<rparr>)) (\<lambda>_.
          try_catch_finally
            (bind_prog (send (Insert_transaction transactionData (User.id u)
                         (insert_timestamp env transactionData))) (\<lambda>_.
             bind_prog (await (mutation_result env)) (\<lambda>r.
             bind_prog (throw_if_error r) (\<lambda>_.
             bind_prog (fetchAccountsAndTransactions env) (\<lambda>_. ret True)))))
            (\<lambda>e. bind_prog (console_error (Failed_to_add_transaction e)) (\<lambda>_. ret False))
            (set_state (\<lambda>s. s\<lparr> isLoading := False \<rparr>))) w)"

definition updateTransaction :: "env \<Rightarrow> number \<Rightarrow> TransactionUpdate \<Rightarrow> bool prog" where
  "updateTransaction env ident changes =
     bind_prog (set_state (\<lambda>s. s\<lparr> isLoading := True \<rparr>)) (\<lambda>_.
     try_catch_finally
       (bind_prog (send (Update_transaction changes ident)) (\<lambda>_.
        bind_prog (await (mutation_result env)) (\<lambda>r.
        bind_prog (throw_if_error r) (\<lambda>_.
        bind_prog (fetchAccountsAndTransactions env) (\<lambda>_. ret True)))))
       (\<lambda>e. bind_prog (console_error (Failed_to_update_transaction ident e)) (\<lambda>_. ret False))
       (set_state (\<lambda>s. s\<lparr> isLoading := False \<rparr>)))"

definition deleteTransaction :: "env \<Rightarrow> number \<Rightarrow> bool prog" where
  "deleteTransaction env ident =
     bind_prog (set_state (\<lambda>s. s\<lparr> isLoading := True \<rparr>)) (\<lambda>_.
     try_catch_finally
       (bind_prog (send (Delete_transaction ident)) (\<lambda>_.
        bind_prog (await (mutation_result env)) (\<lambda>r.
        bind_prog (throw_if_error r) (\<lambda>_.
        bind_prog (fetchAccountsAndTransactions env) (\<lambda>_. ret True)))))
       (\<lambda>e. bind_prog (console_error (Failed_to_delete_transaction ident e)) (\<lambda>_. ret False))
       (set_state (\<lambda>s. s\<lparr> isLoading := False \<rparr>)))"

text \<open>
  The auth listener registered at module initialisation. On \<open>SIGNED_IN\<close> it starts the
  joint fetch without awaiting it; the fetch is run to its end here.
\<close>

datatype auth_event = SIGNED_IN | SIGNED_OUT | Other_event string

definition onAuthStateChange :: "env \<Rightarrow> auth_event \<Rightarrow> Session option \<Rightarrow> unit prog" where
  "onAuthStateChange env event sess =
     bind_prog (set_state (setSession sess)) (\<lambda>_.
       case event of
         SIGNED_IN \<Rightarrow> fetchAccountsAndTransactions env
       | SIGNED_OUT \<Rightarrow> set_state recalculateSummaries
       | Other_event _ \<Rightarrow> ret ())"

text \<open>
  The summaries agree with the collections when recomputing them changes nothing.
\<close>

definition summaries_current :: "AppState \<Rightarrow> bool" where
  "summaries_current s = (recalculateSummaries s = s)"

section \<open>The summaries as the specification words them\<close>

text \<open>
  The specification speaks of the exact sums of the balances and of the weight changes.
  These are the sums of the rationals the numbers denote, to be compared with what
  \<open>recalculateSummaries\<close> accumulates in binary64.
\<close>

definition exactNetCash :: "Account list \<Rightarrow> rat" where
  "exactNetCash accs = (\<Sum>acc\<leftarrow>accs. val (Account.current_balance acc))"

definition exactWeightOnHand :: "Transaction list \<Rightarrow> rat" where
  "exactWeightOnHand txs = (\<Sum>tx\<leftarrow>txs. val (Transaction.weightChange tx))"

text \<open>
  Numbers that add up without rounding in any order: all on one grid \<open>2^e\<close> of binary64,
  with magnitudes that total less than \<open>2^(e+53)\<close>.
\<close>

definition exactly_summable :: "int \<Rightarrow> number list \<Rightarrow> bool" where
  "exactly_summable e xs \<longleftrightarrow>
     - 1074 \<le> e \<and> e \<le> 971 \<and> list_all (on_grid e) xs \<and> (\<Sum>x\<leftarrow>xs. \<bar>val x\<bar>) < pow2 (e + 53)"

section \<open>Sample data\<close>

definition sample_user :: User where
  "sample_user = \<lparr> User.id = ''u1'', email = ''u1@example.org'' \<rparr>"

definition sample_session :: Session where
  "sample_session = \<lparr> access_token = ''token'', Session.user = Some sample_user \<rparr>"

definition sample_account :: "string \<Rightarrow> number \<Rightarrow> Account" where
  "sample_account n b =
     \<lparr> Account.id = n, Account.user_id = ''u1'', Account.name = n, Account.type = ''Bank'',
       Account.current_balance = b, Account.created_at = Num 0 \<rparr>"

definition sample_transaction :: "string \<Rightarrow> number \<Rightarrow> number \<Rightarrow> Transaction" where
  "sample_transaction ty a wc =
     \<lparr> Transaction.id = Num 1, Transaction.timestamp = Num 0, Transaction.type = ty,
       Transaction.amount = a, Transaction.weightChange = wc, Transaction.notes = Undefined,
       Transaction.account_id = ''a1'', Transaction.category = Undefined,
       Transaction.user_id = ''u1'', Transaction.created_at = Num 0,
       Transaction.related_transaction_id = Undefined \<rparr>"

definition sample_account_row :: AccountRow where
  "sample_account_row =
     \<lparr> AccountRow.id = ''a1'', AccountRow.user_id = ''u1'', AccountRow.name = ''Checking'',
       AccountRow.type = ''Bank'', AccountRow.current_balance = Num 100,
       AccountRow.created_at = ''2025-01-01T00:00:00.000Z'' \<rparr>"

definition sample_transaction_row :: TransactionRow where
  "sample_transaction_row =
     \<lparr> TransactionRow.id = Num 7, TransactionRow.user_id = ''u1'',
       TransactionRow.account_id = ''a1'', TransactionRow.type = ''Sale'',
       TransactionRow.amount = Num 50, TransactionRow.weight_change = Num (- 5),
       TransactionRow.notes = None, TransactionRow.category = Some [],
       TransactionRow.timestamp = ''2025-01-01T00:00:00.000Z'',
       TransactionRow.created_at = ''2025-01-01T00:00:01.000Z'',
       TransactionRow.related_transaction_id = Some (Num 0) \<rparr>"

definition sample_insert :: TransactionInsert where
  "sample_insert =
     \<lparr> TransactionInsert.type = ''Sale'', TransactionInsert.amount = Num 50,
       TransactionInsert.weightChange = Num (- 5), TransactionInsert.notes = None,
       TransactionInsert.account_id = ''a1'', TransactionInsert.category = None,
       TransactionInsert.related_transaction_id = None, TransactionInsert.timestamp = None \<rparr>"

definition sample_update :: TransactionUpdate where
  "sample_update =
     \<lparr> TransactionUpdate.type = None, TransactionUpdate.amount = Some (Num 60),
       TransactionUpdate.weightChange = None, TransactionUpdate.notes = None,
       TransactionUpdate.account_id = None, TransactionUpdate.category = None,
       TransactionUpdate.related_transaction_id = None, TransactionUpdate.timestamp = None \<rparr>"

text \<open>A parser that knows the two timestamps of the sample rows.\<close>

definition sample_parse :: "string \<Rightarrow> int option" where
  "sample_parse s =
     (if s = ''2025-01-01T00:00:00.000Z'' then Some 1735689600000
      else if s = ''2025-01-01T00:00:01.000Z'' then Some 1735689601000
      else None)"

text \<open>A service on which every call succeeds and returns no rows and no session.\<close>

definition sample_env :: env where
  "sample_env =
     \<lparr> Date_parse = sample_parse,
       now_ISOString = ''2025-06-01T12:00:00.000Z'',
       getSession_result = Fulfilled (Response None None),
       signOut_result = Fulfilled (Response () None),
       select_accounts_result = Fulfilled (Response (Some []) None),
       select_transactions_result = Fulfilled (Response (Some []) None),
       mutation_result = Fulfilled (Response () None),
       accounts_settle_first = True \<rparr>"

text \<open>A service on which every call fails.\<close>

definition failing_env :: env where
  "failing_env =
     \<lparr> Date_parse = sample_parse,
       now_ISOString = ''2025-06-01T12:00:00.000Z'',
       getSession_result = Rejected (Error ''network''),
       signOut_result = Fulfilled (Response () (Some (Error ''denied''))),
       select_accounts_result = Fulfilled (Response None (Some (Error ''denied''))),
       select_transactions_result = Rejected (Error ''network''),
       mutation_result = Fulfilled (Response () (Some (Error ''denied''))),
       accounts_settle_first = False \<rparr>"

text \<open>A signed-in store holding one account of balance 100 and one sale, summaries computed.\<close>

definition signed_in_state :: AppState where
  "signed_in_state =
     \<lparr> session = Some sample_session, user = Some sample_user, isSessionLoading = False,
       accounts = [sample_account ''a1'' (Num 100)],
       transactions = [sample_transaction ''Sale'' (Num 50) (Num (- 5))],
       isLoading = False, overallNetCash = Num 100, weightOnHand = Num (- 5),
       dollarPerGramRatio = Some (Num 10) \<rparr>"

definition signed_in_world :: world where
  "signed_in_world = \<lparr> state = signed_in_state, requests = [], console = [] \<rparr>"

text \<open>The same store with nobody signed in.\<close>

definition signed_out_world :: world where
  "signed_out_world =
     \<lparr> state = signed_in_state\<lparr> session := None, user := None \<rparr>, requests = [], console = [] \<rparr>"

text \<open>Three balances whose partial sums leave the 53 bits of a double.\<close>

definition large_accounts :: "Account list" where
  "large_accounts =
     [sample_account ''a1'' (Num 10000000000000000),
      sample_account ''a2'' (Num 1),
      sample_account ''a3'' (Num (- 10000000000000000))]"

definition large_accounts_reordered :: "Account list" where
  "large_accounts_reordered =
     [sample_account ''a1'' (Num 10000000000000000),
      sample_account ''a3'' (Num (- 10000000000000000)),
      sample_account ''a2'' (Num 1)]"

definition large_transactions :: "Transaction list" where
  "large_transactions =
     [sample_transaction ''Purchase'' (Num (- 1)) (Num 10000000000000000),
      sample_transaction ''Purchase'' (Num (- 1)) (Num 1),
      sample_transaction ''Sale'' (Num 1) (Num (- 10000000000000000))]"

text \<open>Scenario A of the specification, in both orders.\<close>

definition scenario_A :: "Account list" where
  "scenario_A = [sample_account ''a1'' (Num 100), sample_account ''a2'' (Num (- 51 / 2))]"

definition scenario_A_reversed :: "Account list" where
  "scenario_A_reversed = [sample_account ''a2'' (Num (- 51 / 2)), sample_account ''a1'' (Num 100)]"

text \<open>Scenario B of the specification, in both orders.\<close>

definition scenario_B :: "Transaction list" where
  "scenario_B =
     [sample_transaction ''Sale'' (Num 50) (Num (- 5)),
      sample_transaction ''Purchase'' (Num (- 20)) (Num 10)]"

definition scenario_B_reversed :: "Transaction list" where
  "scenario_B_reversed =
     [sample_transaction ''Purchase'' (Num (- 20)) (Num 10),
      sample_transaction ''Sale'' (Num 50) (Num (- 5))]"

text \<open>A sale that dispenses no weight, next to a purchase that receives some.\<close>

definition zero_weight_sale :: "Transaction list" where
  "zero_weight_sale =
     [sample_transaction ''Sale'' (Num 50) (Num 0),
      sample_transaction ''Purchase'' (Num (- 20)) (Num 10)]"

section \<open>Facts about the model\<close>

section \<open>Facts about rounding\<close>

lemma pow2_powi: "pow2 k = 2 powi k"
  by (simp add: pow2_def power_int_def inverse_eq_divide power_one_over)

lemma pow2_pos: "0 < pow2 k"
  by (simp add: pow2_powi)

lemma pow2_add: "pow2 (j + k) = pow2 j * pow2 k"
  by (simp add: pow2_powi power_int_add)

lemma pow2_less_iff: "pow2 j < pow2 k \<longleftrightarrow> j < k"
proof
  assume lt: "pow2 j < pow2 k"
  show "j < k"
  proof (rule ccontr)
    assume "\<not> j < k"
    then have "k \<le> j" by simp
    then have "pow2 k \<le> pow2 j"
      unfolding pow2_powi by (intro power_int_increasing) auto
    with lt show False by simp
  qed
next
  assume "j < k"
  then show "pow2 j < pow2 k"
    unfolding pow2_powi by (intro power_int_strict_increasing) auto
qed

lemma pow2_le_iff: "pow2 j \<le> pow2 k \<longleftrightarrow> j \<le> k"
  using pow2_less_iff [of k j] by (auto simp: not_less [symmetric])

lemma pow2_nonneg_int: "0 \<le> k \<Longrightarrow> pow2 k = of_int (2 ^ nat k)"
  by (simp add: pow2_def)

lemma ilog2_lower_ge1:
  assumes "1 \<le> a"
  shows "pow2 (ilog2 a) \<le> a"
proof -
  have pos: "0 < \<lfloor>a\<rfloor>" using assms by simp
  let ?b = "bitlen \<lfloor>a\<rfloor>"
  have b1: "1 \<le> ?b"
    using pos bitlen_eq_zero_iff [of "\<lfloor>a\<rfloor>"] bitlen_nonneg [of "\<lfloor>a\<rfloor>"] by linarith
  have "(2::int) ^ nat (?b - 1) \<le> \<lfloor>a\<rfloor>" using bitlen_bounds [OF pos] by simp
  then have "rat_of_int (2 ^ nat (?b - 1)) \<le> of_int \<lfloor>a\<rfloor>" by (simp only: of_int_le_iff)
  also have "\<dots> \<le> a" by simp
  finally have "rat_of_int (2 ^ nat (?b - 1)) \<le> a" .
  moreover have "pow2 (ilog2 a) = rat_of_int (2 ^ nat (?b - 1))"
    using assms b1 by (simp add: ilog2_def pow2_nonneg_int)
  ultimately show ?thesis by simp
qed

lemma ilog2_lower_lt1:
  assumes "0 < a" "a < 1"
  shows "pow2 (ilog2 a) \<le> a"
proof -
  let ?m = "\<lceil>1 / a\<rceil> - 1"
  let ?b = "bitlen ?m"
  have "1 < 1 / a" using assms by simp
  then have "1 < \<lceil>1 / a\<rceil>" by (simp add: less_ceiling_iff)
  then have pos: "0 < ?m" by simp
  have b0: "0 \<le> ?b" by (rule bitlen_nonneg)
  have "?m < 2 ^ nat ?b" using bitlen_bounds [OF pos] by simp
  then have "\<lceil>1 / a\<rceil> \<le> 2 ^ nat ?b" by simp
  then have le: "rat_of_int \<lceil>1 / a\<rceil> \<le> rat_of_int (2 ^ nat ?b)" by (simp only: of_int_le_iff)
  have "1 / a \<le> rat_of_int \<lceil>1 / a\<rceil>" by (rule le_of_int_ceiling)
  also note le
  finally have "1 / a \<le> 2 ^ nat ?b" by simp
  then have "1 / 2 ^ nat ?b \<le> a"
    using assms(1) by (simp add: field_simps)
  moreover have "pow2 (ilog2 a) = 1 / 2 ^ nat ?b"
    using assms b0 by (auto simp: ilog2_def pow2_def)
  ultimately show ?thesis by simp
qed

lemma ilog2_lower: "0 < a \<Longrightarrow> pow2 (ilog2 a) \<le> a"
  using ilog2_lower_ge1 [of a] ilog2_lower_lt1 [of a] by linarith

lemma roundTiesToEven_of_int: "roundTiesToEven (of_int m) = m"
  by (simp add: roundTiesToEven_def)


text \<open>A multiple of \<open>2^e\<close> with fewer than 54 significant bits is a double: rounding keeps it.\<close>

lemma round64_grid:
  assumes q0: "q \<noteq> 0"
    and grid: "q = of_int n * pow2 e"
    and emin: "- 1074 \<le> e"
    and small: "\<bar>q\<bar> < pow2 (e + 53)"
    and emax: "e \<le> 971"
  shows "round64 q = Num q"
proof -
  define a where "a = \<bar>q\<bar>"
  define E where "E = max (ilog2 a) (- 1022) - 52"
  have apos: "0 < a" using q0 by (simp add: a_def)
  have "pow2 (ilog2 a) \<le> a" using apos by (rule ilog2_lower)
  also have "a < pow2 (e + 53)" using small by (simp add: a_def)
  finally have "ilog2 a < e + 53" by (simp add: pow2_less_iff)
  then have Ee: "E \<le> e" using emin by (simp add: E_def)
  have a_eq: "a = of_int \<bar>n\<bar> * pow2 e"
    using pow2_pos [of e] by (simp add: a_def grid abs_mult)
  have "pow2 e = pow2 (e - E) * pow2 E"
    using pow2_add [of "e - E" E] by simp
  then have "a / pow2 E = of_int \<bar>n\<bar> * pow2 (e - E)"
    using pow2_pos [of E] by (simp add: a_eq)
  also have "\<dots> = of_int (\<bar>n\<bar> * 2 ^ nat (e - E))"
    using Ee by (simp add: pow2_nonneg_int)
  finally have m: "a / pow2 E = of_int (\<bar>n\<bar> * 2 ^ nat (e - E))" .
  have r: "of_int (roundTiesToEven (a / pow2 E)) * pow2 E = a"
    unfolding m roundTiesToEven_of_int
    using m pow2_pos [of E] by (simp add: field_simps)
  have "a < pow2 1024"
  proof -
    have "pow2 (e + 53) \<le> pow2 1024" using emax by (simp add: pow2_le_iff)
    with small show ?thesis by (simp add: a_def)
  qed
  then have no_ovf: "\<not> pow2 1024 \<le> a" by simp
  have "round64 q = Num (if q < 0 then - a else a)"
    using r no_ovf apos
    by (simp add: round64_def Let_def a_def [symmetric] E_def [symmetric])
  also have "(if q < 0 then - a else a) = q" by (simp add: a_def)
  finally show ?thesis .
qed

lemma on_grid_Num_iff: "on_grid e (Num q) \<longleftrightarrow> (\<exists>n. q = of_int n * pow2 e)"
proof
  assume "on_grid e (Num q)"
  then have fl: "of_int \<lfloor>q / pow2 e\<rfloor> = q / pow2 e" by (simp add: on_grid_def)
  have "q = q / pow2 e * pow2 e" using pow2_pos [of e] by simp
  also have "\<dots> = of_int \<lfloor>q / pow2 e\<rfloor> * pow2 e" by (simp only: fl)
  finally show "\<exists>n. q = of_int n * pow2 e" ..
next
  assume "\<exists>n. q = of_int n * pow2 e"
  then obtain n where "q = of_int n * pow2 e" ..
  then have "q / pow2 e = of_int n" using pow2_pos [of e] by simp
  then show "on_grid e (Num q)" by (simp add: on_grid_def)
qed

lemma on_grid_val:
  assumes "on_grid e y"
  shows "\<exists>n. val y = of_int n * pow2 e"
proof (cases y)
  case (Num b)
  with assms show ?thesis by (simp add: on_grid_Num_iff val_def)
next
  case NegZero
  have "val NegZero = of_int 0 * pow2 e" by (simp add: val_def)
  with NegZero show ?thesis by blast
qed (use assms in \<open>simp_all add: on_grid_def\<close>)

lemma fadd_exact:
  assumes emin: "- 1074 \<le> e" and emax: "e \<le> 971"
    and ga: "on_grid e (Num a)" and gy: "on_grid e y"
    and small: "\<bar>a\<bar> + \<bar>val y\<bar> < pow2 (e + 53)"
  shows "fadd (Num a) y = Num (a + val y)"
proof (cases y)
  case (Num b)
  obtain na where na: "a = of_int na * pow2 e" using ga on_grid_Num_iff by blast
  obtain nb where nb: "b = of_int nb * pow2 e" using gy Num on_grid_Num_iff by blast
  show ?thesis
  proof (cases "a + b = 0")
    case True
    with Num show ?thesis by (simp add: val_def)
  next
    case False
    have "a + b = of_int (na + nb) * pow2 e" by (simp add: na nb algebra_simps)
    moreover have "\<bar>a + b\<bar> < pow2 (e + 53)" using small Num by (simp add: val_def)
    ultimately have "round64 (a + b) = Num (a + b)"
      using False emin emax by (intro round64_grid [where n = "na + nb" and e = e]) auto
    with False Num show ?thesis by (simp add: val_def)
  qed
next
  case NegZero
  then show ?thesis by (simp add: val_def)
qed (use gy in \<open>simp_all add: on_grid_def\<close>)

lemma on_grid_add:
  assumes "on_grid e (Num a)" "on_grid e y"
  shows "on_grid e (Num (a + val y))"
proof -
  obtain na where na: "a = of_int na * pow2 e" using assms(1) on_grid_Num_iff by blast
  obtain ny where ny: "val y = of_int ny * pow2 e" using assms(2) on_grid_val by blast
  have "a + val y = of_int (na + ny) * pow2 e" by (simp add: na ny algebra_simps)
  then show ?thesis using on_grid_Num_iff by blast
qed

text \<open>A left-to-right sum of grid numbers is exact while the magnitudes total less than \<open>2^(e+53)\<close>.\<close>

lemma foldl_fadd_exact:
  assumes emin: "- 1074 \<le> e" and emax: "e \<le> 971"
  shows "on_grid e (Num a) \<Longrightarrow> \<forall>x\<in>set xs. on_grid e (f x) \<Longrightarrow>
         \<bar>a\<bar> + (\<Sum>x\<leftarrow>xs. \<bar>val (f x)\<bar>) < pow2 (e + 53) \<Longrightarrow>
         foldl (\<lambda>sum x. fadd sum (f x)) (Num a) xs = Num (a + (\<Sum>x\<leftarrow>xs. val (f x)))"
proof (induction xs arbitrary: a)
  case Nil
  then show ?case by simp
next
  case (Cons x xs)
  have rest: "0 \<le> (\<Sum>x\<leftarrow>xs. \<bar>val (f x)\<bar>)" by (rule sum_list_nonneg) auto
  have step: "fadd (Num a) (f x) = Num (a + val (f x))"
    using Cons.prems rest by (intro fadd_exact [OF emin emax]) auto
  have grid': "on_grid e (Num (a + val (f x)))"
    using Cons.prems by (intro on_grid_add) auto
  have "\<bar>a + val (f x)\<bar> + (\<Sum>x\<leftarrow>xs. \<bar>val (f x)\<bar>) < pow2 (e + 53)"
    using Cons.prems(3) by simp
  with Cons.IH [OF grid'] Cons.prems(2)
  have "foldl (\<lambda>sum x. fadd sum (f x)) (Num (a + val (f x))) xs
          = Num (a + val (f x) + (\<Sum>x\<leftarrow>xs. val (f x)))" by simp
  with step show ?case by (simp add: add.assoc)
qed

lemma on_grid_zero: "on_grid e (Num 0)"
  by (simp add: on_grid_def)

lemma sum_list_map_mset_cong:
  fixes g :: "'a \<Rightarrow> rat"
  assumes "mset xs = mset ys"
  shows "sum_list (map g xs) = sum_list (map g ys)"
proof -
  have "sum_list (map g xs) = sum_mset (image_mset g (mset xs))"
    by (simp flip: sum_mset_sum_list)
  also have "\<dots> = sum_mset (image_mset g (mset ys))" using assms by simp
  also have "\<dots> = sum_list (map g ys)" by (simp flip: sum_mset_sum_list)
  finally show ?thesis .
qed

text \<open>The exact sum does not depend on the order of the collection.\<close>

lemma foldl_fadd_exact_perm:
  assumes "- 1074 \<le> e" "e \<le> 971"
    and "\<forall>x\<in>set xs. on_grid e (f x)"
    and "(\<Sum>x\<leftarrow>xs. \<bar>val (f x)\<bar>) < pow2 (e + 53)"
    and "mset ys = mset xs"
  shows "foldl (\<lambda>sum x. fadd sum (f x)) (Num 0) ys = Num (\<Sum>x\<leftarrow>xs. val (f x))"
proof -
  have "set ys = set xs" using assms(5) by (rule mset_eq_setD)
  moreover have "(\<Sum>x\<leftarrow>ys. \<bar>val (f x)\<bar>) = (\<Sum>x\<leftarrow>xs. \<bar>val (f x)\<bar>)"
    using assms(5) by (rule sum_list_map_mset_cong)
  moreover have "(\<Sum>x\<leftarrow>ys. val (f x)) = (\<Sum>x\<leftarrow>xs. val (f x))"
    using assms(5) by (rule sum_list_map_mset_cong)
  ultimately show ?thesis
    using foldl_fadd_exact [OF assms(1,2) on_grid_zero, of ys f] assms(3,4) by simp
qed

lemma ilog2_upper_ge1:
  assumes "1 \<le> a"
  shows "a < pow2 (ilog2 a + 1)"
proof -
  have pos: "0 < \<lfloor>a\<rfloor>" using assms by simp
  let ?b = "bitlen \<lfloor>a\<rfloor>"
  have b0: "0 \<le> ?b" by (rule bitlen_nonneg)
  have "\<lfloor>a\<rfloor> < 2 ^ nat ?b" using bitlen_bounds [OF pos] by simp
  then have "\<lfloor>a\<rfloor> + 1 \<le> 2 ^ nat ?b" by simp
  then have le: "rat_of_int (\<lfloor>a\<rfloor> + 1) \<le> rat_of_int (2 ^ nat ?b)" by (simp only: of_int_le_iff)
  have "a < rat_of_int (\<lfloor>a\<rfloor> + 1)" by linarith
  also note le
  finally have "a < rat_of_int (2 ^ nat ?b)" .
  moreover have "pow2 (ilog2 a + 1) = rat_of_int (2 ^ nat ?b)"
    using assms b0 by (simp add: ilog2_def pow2_nonneg_int)
  ultimately show ?thesis by simp
qed

lemma ilog2_upper_lt1:
  assumes "0 < a" "a < 1"
  shows "a < pow2 (ilog2 a + 1)"
proof -
  let ?m = "\<lceil>1 / a\<rceil> - 1"
  let ?b = "bitlen ?m"
  have "1 < 1 / a" using assms by simp
  then have "1 < \<lceil>1 / a\<rceil>" by (simp add: less_ceiling_iff)
  then have pos: "0 < ?m" by simp
  have b1: "1 \<le> ?b"
    using pos bitlen_eq_zero_iff [of ?m] bitlen_nonneg [of ?m] by linarith
  have "(2::int) ^ nat (?b - 1) \<le> ?m" using bitlen_bounds [OF pos] by simp
  then have le: "rat_of_int (2 ^ nat (?b - 1)) \<le> rat_of_int ?m" by (simp only: of_int_le_iff)
  have "rat_of_int ?m < 1 / a" by linarith
  with le have "rat_of_int (2 ^ nat (?b - 1)) < 1 / a" by linarith
  then have "2 ^ nat (?b - 1) < 1 / a" by simp
  then have "a < 1 / 2 ^ nat (?b - 1)"
    using assms(1) by (simp add: field_simps)
  moreover have "pow2 (ilog2 a + 1) = 1 / 2 ^ nat (?b - 1)"
  proof (cases "?b = 1")
    case True
    with assms show ?thesis by (simp add: ilog2_def pow2_def)
  next
    case False
    with b1 have "1 < ?b" by simp
    with assms show ?thesis by (simp add: ilog2_def pow2_def)
  qed
  ultimately show ?thesis by simp
qed

lemma ilog2_upper: "0 < a \<Longrightarrow> a < pow2 (ilog2 a + 1)"
  using ilog2_upper_ge1 [of a] ilog2_upper_lt1 [of a] by linarith

text \<open>The exponent is determined by its two bounds.\<close>

lemma ilog2_eqI:
  assumes "pow2 k \<le> a" "a < pow2 (k + 1)"
  shows "ilog2 a = k"
proof -
  have apos: "0 < a" using assms(1) pow2_pos [of k] by linarith
  have "pow2 k < pow2 (ilog2 a + 1)" using assms(1) ilog2_upper [OF apos] by linarith
  then have "k < ilog2 a + 1" by (simp add: pow2_less_iff)
  moreover have "pow2 (ilog2 a) < pow2 (k + 1)" using assms(2) ilog2_lower [OF apos] by linarith
  then have "ilog2 a < k + 1" by (simp add: pow2_less_iff)
  ultimately show ?thesis by simp
qed

text \<open>Rounding a given rational, from the binade it lies in.\<close>

lemma round64_eqI:
  assumes "0 < q" "pow2 k \<le> q" "q < pow2 (k + 1)"
    and "e = max k (- 1022) - 52"
    and "r = of_int (roundTiesToEven (q / pow2 e)) * pow2 e"
    and "r < pow2 1024" "r \<noteq> 0"
  shows "round64 q = Num r"
proof -
  have "ilog2 q = k" using assms(2,3) by (rule ilog2_eqI)
  then show ?thesis
    using assms by (simp add: round64_def Let_def)
qed

lemma floor_rat_numeral_div: "\<lfloor>(numeral a :: rat) / numeral b\<rfloor> = numeral a div numeral b"
  using floor_divide_of_int_eq [of "numeral a" "numeral b", where ?'a = rat] by simp

lemma round64_1e16_plus_1: "round64 10000000000000001 = Num 10000000000000000"
  by (rule round64_eqI [where k = 53 and e = 1])
     (simp_all add: pow2_def roundTiesToEven_def Let_def floor_rat_numeral_div)

lemma round64_int:
  assumes "n \<noteq> 0" "\<bar>n\<bar> < 2 ^ 53"
  shows "round64 (of_int n) = Num (of_int n)"
proof -
  have "\<bar>rat_of_int n\<bar> < rat_of_int (2 ^ 53)"
    using assms(2) by (simp only: of_int_abs [symmetric] of_int_less_iff)
  then show ?thesis
    using assms(1) by (intro round64_grid [where n = n and e = 0]) (simp_all add: pow2_def)
qed

lemma round64_numeral:
  "(numeral k :: int) < 2 ^ 53 \<Longrightarrow> round64 (numeral k) = Num (numeral k)"
  using round64_int [of "numeral k"] by simp

lemma round64_neg_numeral:
  "(numeral k :: int) < 2 ^ 53 \<Longrightarrow> round64 (- numeral k) = Num (- numeral k)"
  using round64_int [of "- numeral k"] by simp

lemma round64_one: "round64 1 = Num 1"
  using round64_int [of 1] by simp

lemma round64_neg_one: "round64 (- 1) = Num (- 1)"
  using round64_int [of "- 1"] by simp

lemma round64_1e16: "round64 10000000000000000 = Num 10000000000000000"
  by (rule round64_grid [where n = 5000000000000000 and e = 1]) (simp_all add: pow2_def)

lemma round64_neg_1e16: "round64 (- 10000000000000000) = Num (- 10000000000000000)"
  by (rule round64_grid [where n = "- 5000000000000000" and e = 1]) (simp_all add: pow2_def)

lemmas round64_samples =
  round64_one round64_neg_one round64_numeral round64_neg_numeral round64_1e16 round64_neg_1e16 round64_1e16_plus_1





lemmas prog_defs =
  ret_def throw_def bind_prog_def try_catch_def try_catch_finally_def set_state_def
  console_error_def send_def await_def throw_if_error_def join2_def

lemma thrown_SomeD:
  "thrown p = Some e \<Longrightarrow> p = Rejected e \<or> (\<exists>d. p = Fulfilled (Response d (Some e)))"
  by (auto simp: thrown_def split: settled.splits response.splits)

lemma thrown_NoneD: "thrown p = None \<Longrightarrow> \<exists>d. p = Fulfilled (Response d None)"
  by (auto simp: thrown_def split: settled.splits response.splits)

lemma fetchAccounts_resume_failure:
  "thrown (select_accounts_result env) = Some e \<Longrightarrow>
   fetchAccounts_resume env w =
     (Normal (), w\<lparr> state := (state w)\<lparr> accounts := [], isLoading := False \<rparr>,
                    console := console w @ [Failed_to_fetch_accounts e] \<rparr>)"
  by (auto dest!: thrown_SomeD simp: fetchAccounts_resume_def prog_defs)

lemma fetchAccounts_resume_success:
  "select_accounts_result env = Fulfilled (Response d None) \<Longrightarrow>
   fetchAccounts_resume env w =
     (Normal (), w\<lparr> state := (recalculateSummaries ((state w)\<lparr> accounts :=
         (case d of None \<Rightarrow> [] | Some rows \<Rightarrow> map (mapAccount (Date_parse env)) rows) \<rparr>))
           \<lparr> isLoading := False \<rparr> \<rparr>)"
  by (simp add: fetchAccounts_resume_def prog_defs)

lemma fetchTransactions_resume_failure:
  "thrown (select_transactions_result env) = Some e \<Longrightarrow>
   fetchTransactions_resume env w =
     (Normal (), w\<lparr> state := (state w)\<lparr> transactions := [], isLoading := False \<rparr>,
                    console := console w @ [Failed_to_fetch_transactions e] \<rparr>)"
  by (auto dest!: thrown_SomeD simp: fetchTransactions_resume_def prog_defs)

lemma fetchTransactions_resume_success:
  "select_transactions_result env = Fulfilled (Response d None) \<Longrightarrow>
   fetchTransactions_resume env w =
     (Normal (), w\<lparr> state := (recalculateSummaries ((state w)\<lparr> transactions :=
         (case d of None \<Rightarrow> [] | Some rows \<Rightarrow> map (mapTransaction (Date_parse env)) rows) \<rparr>))
           \<lparr> isLoading := False \<rparr> \<rparr>)"
  by (simp add: fetchTransactions_resume_def prog_defs)

lemma fetchAccounts_resume_Normal: "fst (fetchAccounts_resume env w) = Normal ()"
proof (cases "thrown (select_accounts_result env)")
  case None
  then show ?thesis by (auto dest!: thrown_NoneD simp: fetchAccounts_resume_success)
next
  case (Some e)
  then show ?thesis by (simp add: fetchAccounts_resume_failure)
qed

lemma fetchTransactions_resume_Normal: "fst (fetchTransactions_resume env w) = Normal ()"
proof (cases "thrown (select_transactions_result env)")
  case None
  then show ?thesis by (auto dest!: thrown_NoneD simp: fetchTransactions_resume_success)
next
  case (Some e)
  then show ?thesis by (simp add: fetchTransactions_resume_failure)
qed

lemma join2_Normal:
  assumes "\<And>w. fst (a w) = Normal ()" "\<And>w. fst (b w) = Normal ()"
  shows "fst (join2 a b w) = Normal ()"
  using assms(1) [of w] assms(2) [of "snd (a w)"]
  by (auto simp: join2_def split: prod.splits completion.splits)

lemma fetchAccountsAndTransactions_Normal: "fst (fetchAccountsAndTransactions env w) = Normal ()"
  by (auto simp: fetchAccountsAndTransactions_def Let_def ret_def
        fetchAccounts_resume_Normal fetchTransactions_resume_Normal
      split: prod.splits intro!: join2_Normal)

lemma fetchAccountsAndTransactions_no_user:
  "AppState.user (state w) = None \<Longrightarrow> fetchAccountsAndTransactions env w = (Normal (), w)"
  by (simp add: fetchAccountsAndTransactions_def fetchAccounts_begin_def
      fetchTransactions_begin_def Let_def join2_def ret_def)

lemma addTransaction_failure:
  assumes "AppState.user (state w) = Some u" "thrown (mutation_result env) = Some e"
  shows "addTransaction env td w =
           (Normal False,
            w\<lparr> state := (state w)\<lparr> isLoading := False \<rparr>,
               requests := requests w @ [Insert_transaction td (User.id u) (insert_timestamp env td)],
               console := console w @ [Failed_to_add_transaction e] \<rparr>)"
  using assms
  by (auto dest!: thrown_SomeD simp: addTransaction_def prog_defs)

lemma addTransaction_no_user:
  "AppState.user (state w) = None \<Longrightarrow> addTransaction env td w = (Normal False, w)"
  by (simp add: addTransaction_def)

lemma fetchAccounts_no_user:
  "AppState.user (state w) = None \<Longrightarrow> fetchAccounts env w = (Normal (), w)"
  by (simp add: fetchAccounts_def fetchAccounts_begin_def)

lemma fetchTransactions_no_user:
  "AppState.user (state w) = None \<Longrightarrow> fetchTransactions env w = (Normal (), w)"
  by (simp add: fetchTransactions_def fetchTransactions_begin_def)

lemma fetchAccounts_failure:
  assumes "AppState.user (state w) = Some u" "thrown (select_accounts_result env) = Some e"
  shows "fetchAccounts env w =
           (Normal (),
            w\<lparr> state := (state w)\<lparr> accounts := [], isLoading := False \<rparr>,
               requests := requests w @ [Select_accounts (User.id u)],
               console := console w @ [Failed_to_fetch_accounts e] \<rparr>)"
  using assms
  by (simp add: fetchAccounts_def fetchAccounts_begin_def fetchAccounts_resume_failure)

lemma fetchTransactions_failure:
  assumes "AppState.user (state w) = Some u" "thrown (select_transactions_result env) = Some e"
  shows "fetchTransactions env w =
           (Normal (),
            w\<lparr> state := (state w)\<lparr> transactions := [], isLoading := False \<rparr>,
               requests := requests w @ [Select_transactions (User.id u)],
               console := console w @ [Failed_to_fetch_transactions e] \<rparr>)"
  using assms
  by (simp add: fetchTransactions_def fetchTransactions_begin_def fetchTransactions_resume_failure)

lemma checkSession_Normal: "fst (checkSession env w) = Normal ()"
  by (auto simp: checkSession_def prog_defs 
      split: prod.splits completion.splits settled.splits response.splits option.splits)









lemma overallNetCash_foldl:
  "overallNetCash (recalculateSummaries st) = foldl fadd (Num 0) (map Account.current_balance (accounts st))"
  by (simp add: recalculateSummaries_def foldl_map)

lemma weightOnHand_foldl:
  "weightOnHand (recalculateSummaries st) = foldl fadd (Num 0) (map Transaction.weightChange (transactions st))"
  by (simp add: recalculateSummaries_def foldl_map)

lemma foldl_fadd_summable:
  assumes "exactly_summable e (map f xs)" "mset ys = mset xs"
  shows "foldl fadd (Num 0) (map f ys) = Num (\<Sum>x\<leftarrow>xs. val (f x))"
  using assms foldl_fadd_exact_perm [of e xs f ys]
  by (simp add: exactly_summable_def list_all_iff foldl_map comp_def)

lemmas sample_defs =
  sample_user_def sample_session_def sample_account_def sample_transaction_def
  sample_account_row_def sample_transaction_row_def sample_insert_def sample_update_def
  sample_parse_def sample_env_def failing_env_def signed_in_state_def signed_in_world_def
  signed_out_world_def large_accounts_def large_accounts_reordered_def large_transactions_def
  scenario_A_def scenario_A_reversed_def scenario_B_def scenario_B_reversed_def zero_weight_sale_def
  initialState_def

lemma large_accounts_doubles: "list_all is_double (map Account.current_balance large_accounts)"
  by (simp add: sample_defs is_double_def round64_samples)

lemma large_accounts_exact: "exactNetCash large_accounts = 1"
  by (simp add: sample_defs exactNetCash_def val_def)

lemma large_accounts_sum:
  "overallNetCash (recalculateSummaries (initialState\<lparr> accounts := large_accounts \<rparr>)) = Num 0"
  by (simp add: sample_defs overallNetCash_foldl round64_samples)

lemma large_accounts_reordered_sum:
  "overallNetCash (recalculateSummaries (initialState\<lparr> accounts := large_accounts_reordered \<rparr>))
     = Num 1"
  by (simp add: sample_defs overallNetCash_foldl round64_samples)

lemma large_accounts_reordered_mset: "mset large_accounts_reordered = mset large_accounts"
  by (simp add: large_accounts_def large_accounts_reordered_def)

lemma signed_in_state_current: "summaries_current signed_in_state"
  by (simp add: summaries_current_def recalculateSummaries_def sample_defs totalSalesAmount_def
      totalSalesWeight_def sales_def fabs_def fgt_def val_def fdiv_def is_inf_def is_zero_def
      round64_samples)

lemma failed_thrown: "failed p \<Longrightarrow> \<exists>e. thrown p = Some e"
  by (auto simp: failed_def)

lemma checkSession_no_user:
  assumes "getSession_result env = Fulfilled (Response sess None)" "session_user sess = None"
  shows "checkSession env w =
           (Normal (),
            w\<lparr> state := (state w)\<lparr> session := sess, user := None, accounts := [],
                                   transactions := [], isSessionLoading := False \<rparr>,
               requests := requests w @ [Auth_getSession] \<rparr>)"
  using assms by (simp add: checkSession_def prog_defs setSession_def)

lemma checkSession_failure:
  assumes "thrown (getSession_result env) = Some e"
  shows "checkSession env w =
           (Normal (),
            w\<lparr> state := (state w)\<lparr> isSessionLoading := False \<rparr>,
               requests := requests w @ [Auth_getSession],
               console := console w @ [Session_check_failed e] \<rparr>)"
  using assms by (auto dest!: thrown_SomeD simp: checkSession_def prog_defs)

lemma checkSession_isSessionLoading:
  "isSessionLoading (state (snd (checkSession env w))) = False"
  by (auto simp: checkSession_def prog_defs
      split: prod.splits completion.splits settled.splits response.splits option.splits)

lemma updateTransaction_no_user:
  assumes "AppState.user (state w) = None"
  shows "updateTransaction env i c w =
           (Normal (\<not> failed (mutation_result env)),
            w\<lparr> state := (state w)\<lparr> isLoading := False \<rparr>,
               requests := requests w @ [Update_transaction c i],
               console := console w @
                 (case thrown (mutation_result env) of None \<Rightarrow> []
                  | Some e \<Rightarrow> [Failed_to_update_transaction i e]) \<rparr>)"
proof (cases "thrown (mutation_result env)")
  case None
  then obtain d where "mutation_result env = Fulfilled (Response d None)"
    by (auto dest: thrown_NoneD)
  then show ?thesis
    using assms
    by (simp add: updateTransaction_def prog_defs fetchAccountsAndTransactions_no_user failed_def
        thrown_def)
next
  case (Some e)
  then have "mutation_result env = Rejected e
      \<or> (\<exists>d. mutation_result env = Fulfilled (Response d (Some e)))"
    by (rule thrown_SomeD)
  then show ?thesis
    by (auto simp: updateTransaction_def prog_defs failed_def thrown_def)
qed

lemma deleteTransaction_no_user:
  assumes "AppState.user (state w) = None"
  shows "deleteTransaction env i w =
           (Normal (\<not> failed (mutation_result env)),
            w\<lparr> state := (state w)\<lparr> isLoading := False \<rparr>,
               requests := requests w @ [Delete_transaction i],
               console := console w @
                 (case thrown (mutation_result env) of None \<Rightarrow> []
                  | Some e \<Rightarrow> [Failed_to_delete_transaction i e]) \<rparr>)"
proof (cases "thrown (mutation_result env)")
  case None
  then obtain d where "mutation_result env = Fulfilled (Response d None)"
    by (auto dest: thrown_NoneD)
  then show ?thesis
    using assms
    by (simp add: deleteTransaction_def prog_defs fetchAccountsAndTransactions_no_user failed_def
        thrown_def)
next
  case (Some e)
  then have "mutation_result env = Rejected e
      \<or> (\<exists>d. mutation_result env = Fulfilled (Response d (Some e)))"
    by (rule thrown_SomeD)
  then show ?thesis
    by (auto simp: deleteTransaction_def prog_defs failed_def thrown_def)
qed

lemma recalculateSummaries_isLoading:
  "recalculateSummaries (s\<lparr> isLoading := b \<rparr>) = (recalculateSummaries s)\<lparr> isLoading := b \<rparr>"
  by (simp add: recalculateSummaries_def)

lemma recalculateSummaries_twice:
  "recalculateSummaries (recalculateSummaries s) = recalculateSummaries s"
  by (simp add: recalculateSummaries_def)

lemma summaries_current_after_recalc:
  "summaries_current ((recalculateSummaries s)\<lparr> isLoading := b \<rparr>)"
  by (simp add: summaries_current_def recalculateSummaries_isLoading recalculateSummaries_twice)

lemma fetchAccounts_success:
  assumes "AppState.user (state w) = Some u"
    and "select_accounts_result env = Fulfilled (Response d None)"
  shows "fetchAccounts env w =
           (Normal (),
            w\<lparr> state := (recalculateSummaries ((state w)\<lparr> accounts :=
                   (case d of None \<Rightarrow> [] | Some rows \<Rightarrow> map (mapAccount (Date_parse env)) rows) \<rparr>))
                     \<lparr> isLoading := False \<rparr>,
               requests := requests w @ [Select_accounts (User.id u)] \<rparr>)"
  using assms
  by (simp add: fetchAccounts_def fetchAccounts_begin_def fetchAccounts_resume_success
      recalculateSummaries_def)

lemma fetchTransactions_success:
  assumes "AppState.user (state w) = Some u"
    and "select_transactions_result env = Fulfilled (Response d None)"
  shows "fetchTransactions env w =
           (Normal (),
            w\<lparr> state := (recalculateSummaries ((state w)\<lparr> transactions :=
                   (case d of None \<Rightarrow> []
                    | Some rows \<Rightarrow> map (mapTransaction (Date_parse env)) rows) \<rparr>))
                     \<lparr> isLoading := False \<rparr>,
               requests := requests w @ [Select_transactions (User.id u)] \<rparr>)"
  using assms
  by (simp add: fetchTransactions_def fetchTransactions_begin_def
      fetchTransactions_resume_success recalculateSummaries_def)

lemma fetchAccountsAndTransactions_success:
  assumes "AppState.user (state w) = Some u"
    and "select_accounts_result env = Fulfilled (Response (Some rows) None)"
    and "select_transactions_result env = Fulfilled (Response (Some trows) None)"
  shows "fetchAccountsAndTransactions env w =
           (Normal (),
            w\<lparr> state := (recalculateSummaries ((state w)
                    \<lparr> accounts := map (mapAccount (Date_parse env)) rows,
                      transactions := map (mapTransaction (Date_parse env)) trows \<rparr>))
                     \<lparr> isLoading := False \<rparr>,
               requests := requests w @ [Select_accounts (User.id u), Select_transactions (User.id u)] \<rparr>)"
  using assms
  by (simp add: fetchAccountsAndTransactions_def fetchAccounts_begin_def
      fetchTransactions_begin_def Let_def join2_def fetchAccounts_resume_success
      fetchTransactions_resume_success recalculateSummaries_def)

lemma mutation_success:
  assumes "AppState.user (state w) = Some u"
    and "mutation_result env = Fulfilled (Response d None)"
    and "select_accounts_result env = Fulfilled (Response (Some rows) None)"
    and "select_transactions_result env = Fulfilled (Response (Some trows) None)"
  shows "addTransaction env td w =
           (Normal True,
            w\<lparr> state := (recalculateSummaries ((state w)
                    \<lparr> accounts := map (mapAccount (Date_parse env)) rows,
                      transactions := map (mapTransaction (Date_parse env)) trows \<rparr>))
                     \<lparr> isLoading := False \<rparr>,
               requests := requests w @
                 [Insert_transaction td (User.id u) (insert_timestamp env td),
                  Select_accounts (User.id u), Select_transactions (User.id u)] \<rparr>)"
    and "updateTransaction env i c w =
           (Normal True,
            w\<lparr> state := (recalculateSummaries ((state w)
                    \<lparr> accounts := map (mapAccount (Date_parse env)) rows,
                      transactions := map (mapTransaction (Date_parse env)) trows \<rparr>))
                     \<lparr> isLoading := False \<rparr>,
               requests := requests w @
                 [Update_transaction c i,
                  Select_accounts (User.id u), Select_transactions (User.id u)] \<rparr>)"
    and "deleteTransaction env i w =
           (Normal True,
            w\<lparr> state := (recalculateSummaries ((state w)
                    \<lparr> accounts := map (mapAccount (Date_parse env)) rows,
                      transactions := map (mapTransaction (Date_parse env)) trows \<rparr>))
                     \<lparr> isLoading := False \<rparr>,
               requests := requests w @
                 [Delete_transaction i,
                  Select_accounts (User.id u), Select_transactions (User.id u)] \<rparr>)"
  using assms
  by (simp_all add: addTransaction_def updateTransaction_def deleteTransaction_def prog_defs
      fetchAccountsAndTransactions_success recalculateSummaries_def)















lemma mapTransaction_weightChange:
  "Transaction.weightChange (mapTransaction parse row) = TransactionRow.weight_change row"
  by (simp add: mapTransaction_def)



section \<open>The claims\<close>

subsection \<open>C1: overallNetCash and the exact sum of the balances\<close>

text \<open>
  \<^bold>\<open>Claim C1\<close> says that for every account collection, after \<open>recalculateSummaries\<close>,
  \<open>overallNetCash\<close> is the exact sum of \<open>current_balance\<close> over the accounts, whatever
  their order. The store adds the balances in binary64, from \<open>+0\<close> and from left to right,
  so the sum is exact only while no addition rounds. As amended: \<open>overallNetCash\<close> is
  that left-to-right binary64 sum, and for every collection whose balances are exactly
  summable (all of them multiples of one power of two \<open>2^e\<close>, magnitudes totalling less
  than \<open>2^(e+53)\<close>) it equals the exact sum of the balances in whatever order the accounts
  are held.
\<close>

theorem overallNetCash_exact_if_summable:
  "overallNetCash (recalculateSummaries st)
     = foldl fadd (Num 0) (map Account.current_balance (accounts st))
   \<and> (exactly_summable e (map Account.current_balance (accounts st)) \<longrightarrow>
        mset accs = mset (accounts st) \<longrightarrow>
        overallNetCash (recalculateSummaries (st\<lparr> accounts := accs \<rparr>))
          = Num (exactNetCash (accounts st)))"
proof (intro conjI impI)
  show "overallNetCash (recalculateSummaries st)
          = foldl fadd (Num 0) (map Account.current_balance (accounts st))"
    by (rule overallNetCash_foldl)
next
  assume "exactly_summable e (map Account.current_balance (accounts st))"
    and "mset accs = mset (accounts st)"
  then have "foldl fadd (Num 0) (map Account.current_balance accs)
               = Num (\<Sum>x\<leftarrow>accounts st. val (Account.current_balance x))"
    by (rule foldl_fadd_summable)
  then show "overallNetCash (recalculateSummaries (st\<lparr> accounts := accs \<rparr>))
               = Num (exactNetCash (accounts st))"
    by (simp add: overallNetCash_foldl exactNetCash_def)
qed

theorem overallNetCash_exact_if_summable_witness:
  "exactly_summable (- 1) (map Account.current_balance scenario_A)
   \<and> mset scenario_A_reversed = mset scenario_A
   \<and> overallNetCash (recalculateSummaries (initialState\<lparr> accounts := scenario_A_reversed \<rparr>))
       = Num (149 / 2)
   \<and> overallNetCash (recalculateSummaries (initialState\<lparr> accounts := scenario_A \<rparr>))
       = Num (149 / 2)"
proof -
  have s: "exactly_summable (- 1) (map Account.current_balance scenario_A)"
    by (simp add: exactly_summable_def on_grid_def pow2_def val_def scenario_A_def
        sample_account_def)
  have m: "mset scenario_A_reversed = mset scenario_A"
    by (simp add: scenario_A_def scenario_A_reversed_def)
  have e: "exactNetCash scenario_A = 149 / 2"
    by (simp add: exactNetCash_def val_def scenario_A_def sample_account_def)
  show ?thesis
    using s m
      overallNetCash_exact_if_summable
        [of "initialState\<lparr> accounts := scenario_A \<rparr>" "- 1" scenario_A_reversed, THEN conjunct2]
      overallNetCash_exact_if_summable
        [of "initialState\<lparr> accounts := scenario_A \<rparr>" "- 1" scenario_A, THEN conjunct2]
    by (simp add: e)
qed

text \<open>
  The balances \<open>1e16, 1, -1e16\<close> are doubles with exact sum 1; added in this order the
  store gets 0 (\<open>1e16 + 1\<close> rounds back to \<open>1e16\<close>), and in the order \<open>1e16, -1e16, 1\<close> it
  gets 1.
\<close>

theorem overallNetCash_exact_counterexample:
  "list_all is_double (map Account.current_balance large_accounts)
   \<and> exactNetCash large_accounts = 1
   \<and> overallNetCash (recalculateSummaries (initialState\<lparr> accounts := large_accounts \<rparr>)) = Num 0
   \<and> overallNetCash (recalculateSummaries (initialState\<lparr> accounts := large_accounts \<rparr>))
       \<noteq> Num (exactNetCash large_accounts)
   \<and> mset large_accounts_reordered = mset large_accounts
   \<and> overallNetCash (recalculateSummaries (initialState\<lparr> accounts := large_accounts_reordered \<rparr>))
       = Num 1"
  by (simp add: large_accounts_doubles large_accounts_exact large_accounts_sum
      large_accounts_reordered_sum large_accounts_reordered_mset)

subsection \<open>C2: weightOnHand and the exact sum of the weight changes\<close>

text \<open>
  \<^bold>\<open>Claim C2\<close> says that for every transaction collection, after
  \<open>recalculateSummaries\<close>, \<open>weightOnHand\<close> is the exact sum of \<open>weightChange\<close> over the
  transactions, negative values included. The store adds in binary64 from left to right.
  As amended: \<open>weightOnHand\<close> is that left-to-right binary64 sum, and for every collection
  whose weight changes (of either sign) are exactly summable it equals their exact sum,
  in whatever order the transactions are held.
\<close>

theorem weightOnHand_exact_if_summable:
  "weightOnHand (recalculateSummaries st)
     = foldl fadd (Num 0) (map Transaction.weightChange (transactions st))
   \<and> (exactly_summable e (map Transaction.weightChange (transactions st)) \<longrightarrow>
        mset txs = mset (transactions st) \<longrightarrow>
        weightOnHand (recalculateSummaries (st\<lparr> transactions := txs \<rparr>))
          = Num (exactWeightOnHand (transactions st)))"
proof (intro conjI impI)
  show "weightOnHand (recalculateSummaries st)
          = foldl fadd (Num 0) (map Transaction.weightChange (transactions st))"
    by (rule weightOnHand_foldl)
next
  assume "exactly_summable e (map Transaction.weightChange (transactions st))"
    and "mset txs = mset (transactions st)"
  then have "foldl fadd (Num 0) (map Transaction.weightChange txs)
               = Num (\<Sum>x\<leftarrow>transactions st. val (Transaction.weightChange x))"
    by (rule foldl_fadd_summable)
  then show "weightOnHand (recalculateSummaries (st\<lparr> transactions := txs \<rparr>))
               = Num (exactWeightOnHand (transactions st))"
    by (simp add: weightOnHand_foldl exactWeightOnHand_def)
qed

theorem weightOnHand_exact_if_summable_witness:
  "exactly_summable 0 (map Transaction.weightChange scenario_B)
   \<and> mset scenario_B_reversed = mset scenario_B
   \<and> weightOnHand (recalculateSummaries (initialState\<lparr> transactions := scenario_B \<rparr>)) = Num 5
   \<and> weightOnHand (recalculateSummaries (initialState\<lparr> transactions := scenario_B_reversed \<rparr>))
       = Num 5"
proof -
  have s: "exactly_summable 0 (map Transaction.weightChange scenario_B)"
    by (simp add: exactly_summable_def on_grid_def pow2_def val_def scenario_B_def
        sample_transaction_def)
  have m: "mset scenario_B_reversed = mset scenario_B"
    by (simp add: scenario_B_def scenario_B_reversed_def)
  have e: "exactWeightOnHand scenario_B = 5"
    by (simp add: exactWeightOnHand_def val_def scenario_B_def sample_transaction_def)
  show ?thesis
    using s m
      weightOnHand_exact_if_summable
        [of "initialState\<lparr> transactions := scenario_B \<rparr>" 0 scenario_B, THEN conjunct2]
      weightOnHand_exact_if_summable
        [of "initialState\<lparr> transactions := scenario_B \<rparr>" 0 scenario_B_reversed, THEN conjunct2]
    by (simp add: e)
qed

text \<open>
  Weight changes \<open>1e16, 1, -1e16\<close>: the exact sum is 1, the store computes 0.
\<close>

theorem weightOnHand_exact_counterexample:
  "list_all is_double (map Transaction.weightChange large_transactions)
   \<and> exactWeightOnHand large_transactions = 1
   \<and> weightOnHand (recalculateSummaries (initialState\<lparr> transactions := large_transactions \<rparr>))
       = Num 0
   \<and> weightOnHand (recalculateSummaries (initialState\<lparr> transactions := large_transactions \<rparr>))
       \<noteq> Num (exactWeightOnHand large_transactions)"
  by (simp add: sample_defs is_double_def exactWeightOnHand_def val_def weightOnHand_foldl
      round64_samples)

subsection \<open>C3: the ratio and its sentinel\<close>



subsection \<open>C4: the summaries after every successful operation\<close>

text \<open>
  \<^bold>\<open>Claim C4\<close> says that in every state reached by the completion of a successful
  state-changing operation of the store, sign-out included, the three summaries equal
  their recomputation over the current collections. The fetches recompute after replacing
  a collection, and the auth listener recomputes on \<open>SIGNED_OUT\<close>, but \<open>signOut\<close> empties
  both collections and returns without recomputing. On a signed-in store holding one
  account of balance 100 whose summaries are current, a successful \<open>signOut\<close> ends with no
  accounts and \<open>overallNetCash\<close> still 100, where the recomputation gives 0. The summaries
  are stale too when the listener has run before the collections are emptied, and after a
  \<open>checkSession\<close> that finds no user.
\<close>

theorem signOut_leaves_summaries_stale:
  "summaries_current (state signed_in_world)
   \<and> signOut sample_env signed_in_world =
       (Normal (),
        \<lparr> state = signed_in_state\<lparr> session := None, user := None, accounts := [],
                                   transactions := [] \<rparr>,
          requests = [Auth_signOut], console = [] \<rparr>)
   \<and> accounts (state (snd (signOut sample_env signed_in_world))) = []
   \<and> overallNetCash (state (snd (signOut sample_env signed_in_world))) = Num 100
   \<and> overallNetCash (recalculateSummaries (state (snd (signOut sample_env signed_in_world)))) = Num 0
   \<and> \<not> summaries_current (state (snd (signOut sample_env signed_in_world)))
   \<and> \<not> summaries_current
         (state (snd (signOut sample_env
                   (snd (onAuthStateChange sample_env SIGNED_OUT None signed_in_world)))))
   \<and> \<not> summaries_current (state (snd (checkSession sample_env signed_in_world)))"
proof -
  have run: "signOut sample_env signed_in_world =
       (Normal (),
        \<lparr> state = signed_in_state\<lparr> session := None, user := None, accounts := [],
                                   transactions := [] \<rparr>,
          requests = [Auth_signOut], console = [] \<rparr>)"
    by (simp add: signOut_def prog_defs sample_env_def signed_in_world_def)
  have cur: "summaries_current (state signed_in_world)"
    using signed_in_state_current by (simp add: signed_in_world_def)
  have "recalculateSummaries (setSession None signed_in_state)
          = setSession None (recalculateSummaries signed_in_state)"
    by (simp add: recalculateSummaries_def setSession_def)
  also have "\<dots> = signed_in_state\<lparr> session := None, user := None \<rparr>"
    using signed_in_state_current
    by (simp add: summaries_current_def setSession_def session_user_def)
  finally have listener: "onAuthStateChange sample_env SIGNED_OUT None signed_in_world =
       (Normal (),
        \<lparr> state = signed_in_state\<lparr> session := None, user := None \<rparr>,
          requests = [], console = [] \<rparr>)"
    by (simp add: onAuthStateChange_def prog_defs signed_in_world_def)
  have run': "signOut sample_env
        \<lparr> state = signed_in_state\<lparr> session := None, user := None \<rparr>,
          requests = [], console = [] \<rparr> =
       (Normal (),
        \<lparr> state = signed_in_state\<lparr> session := None, user := None, accounts := [],
                                   transactions := [] \<rparr>,
          requests = [Auth_signOut], console = [] \<rparr>)"
    by (simp add: signOut_def prog_defs sample_env_def)
  have check: "checkSession sample_env signed_in_world =
       (Normal (),
        \<lparr> state = signed_in_state\<lparr> session := None, user := None, accounts := [],
                                   transactions := [] \<rparr>,
          requests = [Auth_getSession], console = [] \<rparr>)"
    by (simp add: checkSession_def prog_defs sample_env_def signed_in_world_def setSession_def
        session_user_def signed_in_state_def)
  show ?thesis
    unfolding listener snd_conv run' check run using cur
    by (simp add: summaries_current_def recalculateSummaries_def signed_in_state_def
        signed_in_world_def totalSalesWeight_def totalSalesAmount_def sales_def fgt_def)
qed

subsection \<open>C5: a failed insert changes nothing\<close>

text \<open>
  \<^bold>\<open>Claim C5\<close>: whenever \<open>addTransaction\<close> runs with an authenticated user and the remote
  insert fails (its promise is rejected, or its response carries an error), the action
  returns false and the transaction collection is what it was before the call, in length
  and content. Indeed the whole store state is unchanged but for the loading flag, which
  ends false; the insert is the only request sent, and the error is logged.
\<close>

theorem addTransaction_failure_changes_nothing:
  assumes "AppState.user (state w) \<noteq> None" and "failed (mutation_result env)"
  shows "fst (addTransaction env td w) = Normal False
         \<and> transactions (state (snd (addTransaction env td w))) = transactions (state w)
         \<and> length (transactions (state (snd (addTransaction env td w))))
             = length (transactions (state w))
         \<and> state (snd (addTransaction env td w)) = (state w)\<lparr> isLoading := False \<rparr>
         \<and> requests (snd (addTransaction env td w))
             = requests w @ [Insert_transaction td (User.id (the (AppState.user (state w))))
                              (insert_timestamp env td)]
         \<and> console (snd (addTransaction env td w))
             = console w @ [Failed_to_add_transaction (the (thrown (mutation_result env)))]"
proof -
  from assms obtain u e where "AppState.user (state w) = Some u" "thrown (mutation_result env) = Some e"
    by (auto dest: failed_thrown)
  then show ?thesis by (simp add: addTransaction_failure)
qed

theorem addTransaction_failure_changes_nothing_witness:
  "AppState.user (state signed_in_world) \<noteq> None
   \<and> failed (mutation_result failing_env)
   \<and> fst (addTransaction failing_env sample_insert signed_in_world) = Normal False
   \<and> transactions (state (snd (addTransaction failing_env sample_insert signed_in_world)))
       = [sample_transaction ''Sale'' (Num 50) (Num (- 5))]
   \<and> state (snd (addTransaction failing_env sample_insert signed_in_world)) = signed_in_state
   \<and> requests (snd (addTransaction failing_env sample_insert signed_in_world))
       = [Insert_transaction sample_insert ''u1'' ''2025-06-01T12:00:00.000Z'']
   \<and> console (snd (addTransaction failing_env sample_insert signed_in_world))
       = [Failed_to_add_transaction (Error ''denied'')]"
proof -
  have u: "AppState.user (state signed_in_world) \<noteq> None"
    by (simp add: signed_in_world_def signed_in_state_def)
  have f: "failed (mutation_result failing_env)"
    by (simp add: failed_def thrown_def failing_env_def)
  show ?thesis
    using u f addTransaction_failure_changes_nothing [OF u f, of sample_insert]
    by (simp add: signed_in_world_def signed_in_state_def failing_env_def thrown_def
        insert_timestamp_def sample_insert_def sample_user_def)
qed

subsection \<open>C6: a failed fetch empties its collection\<close>

text \<open>
  \<^bold>\<open>Claim C6\<close>: whenever \<open>fetchAccounts\<close> (respectively \<open>fetchTransactions\<close>) runs with an
  authenticated user and the remote select fails, the accounts (respectively the
  transactions) are reset to the empty list, whatever was loaded before, and the loading
  flag is false when the action completes.
\<close>

theorem fetch_failure_empties_collection:
  assumes "AppState.user (state w) \<noteq> None"
  shows "(failed (select_accounts_result env) \<longrightarrow>
            fst (fetchAccounts env w) = Normal ()
            \<and> accounts (state (snd (fetchAccounts env w))) = []
            \<and> isLoading (state (snd (fetchAccounts env w))) = False
            \<and> state (snd (fetchAccounts env w)) = (state w)\<lparr> accounts := [], isLoading := False \<rparr>)
         \<and> (failed (select_transactions_result env) \<longrightarrow>
            fst (fetchTransactions env w) = Normal ()
            \<and> transactions (state (snd (fetchTransactions env w))) = []
            \<and> isLoading (state (snd (fetchTransactions env w))) = False
            \<and> state (snd (fetchTransactions env w))
                = (state w)\<lparr> transactions := [], isLoading := False \<rparr>)"
proof -
  from assms obtain u where "AppState.user (state w) = Some u" by auto
  then show ?thesis
    by (auto dest!: failed_thrown simp: fetchAccounts_failure fetchTransactions_failure)
qed

theorem fetch_failure_empties_collection_witness:
  "AppState.user (state signed_in_world) \<noteq> None
   \<and> failed (select_accounts_result failing_env)
   \<and> failed (select_transactions_result failing_env)
   \<and> accounts (state signed_in_world) \<noteq> []
   \<and> transactions (state signed_in_world) \<noteq> []
   \<and> accounts (state (snd (fetchAccounts failing_env signed_in_world))) = []
   \<and> isLoading (state (snd (fetchAccounts failing_env signed_in_world))) = False
   \<and> transactions (state (snd (fetchTransactions failing_env signed_in_world))) = []
   \<and> isLoading (state (snd (fetchTransactions failing_env signed_in_world))) = False"
proof -
  have u: "AppState.user (state signed_in_world) \<noteq> None"
    by (simp add: signed_in_world_def signed_in_state_def)
  have f: "failed (select_accounts_result failing_env)"
    "failed (select_transactions_result failing_env)"
    by (simp_all add: failed_def thrown_def failing_env_def)
  show ?thesis
    using u f fetch_failure_empties_collection [OF u, of failing_env]
    by (simp add: signed_in_world_def signed_in_state_def)
qed

subsection \<open>C7: session initialisation\<close>

text \<open>
  \<^bold>\<open>Claim C7\<close>: \<open>checkSession\<close> completes normally for every outcome of the remote calls,
  so it never throws to its caller, and the session-loading flag is false when it
  completes. When the auth service reports no authenticated user, accounts and
  transactions are both set to empty. When the call to the auth service fails, the error is
  logged and the session is left as it was (null at start-up): nothing of the state changes
  but the flag.
\<close>

theorem checkSession_never_throws:
  "fst (checkSession env w) = Normal ()
   \<and> isSessionLoading (state (snd (checkSession env w))) = False
   \<and> (\<forall>sess. getSession_result env = Fulfilled (Response sess None) \<longrightarrow> session_user sess = None \<longrightarrow>
        accounts (state (snd (checkSession env w))) = []
        \<and> transactions (state (snd (checkSession env w))) = []
        \<and> AppState.user (state (snd (checkSession env w))) = None)
   \<and> (failed (getSession_result env) \<longrightarrow>
        session (state (snd (checkSession env w))) = session (state w)
        \<and> state (snd (checkSession env w)) = (state w)\<lparr> isSessionLoading := False \<rparr>
        \<and> console (snd (checkSession env w))
            = console w @ [Session_check_failed (the (thrown (getSession_result env)))])"
  by (auto dest!: failed_thrown
      simp: checkSession_Normal checkSession_isSessionLoading checkSession_no_user
        checkSession_failure)

theorem checkSession_never_throws_witness:
  "getSession_result sample_env = Fulfilled (Response None None)
   \<and> session_user None = None
   \<and> accounts (state signed_in_world) \<noteq> []
   \<and> fst (checkSession sample_env signed_in_world) = Normal ()
   \<and> accounts (state (snd (checkSession sample_env signed_in_world))) = []
   \<and> transactions (state (snd (checkSession sample_env signed_in_world))) = []
   \<and> isSessionLoading (state (snd (checkSession sample_env signed_in_world))) = False
   \<and> failed (getSession_result failing_env)
   \<and> fst (checkSession failing_env signed_out_world) = Normal ()
   \<and> session (state (snd (checkSession failing_env signed_out_world))) = None
   \<and> isSessionLoading (state (snd (checkSession failing_env signed_out_world))) = False
   \<and> console (snd (checkSession failing_env signed_out_world))
       = [Session_check_failed (Error ''network'')]"
proof -
  have g: "getSession_result sample_env = Fulfilled (Response None None)"
    by (simp add: sample_env_def)
  have f: "failed (getSession_result failing_env)"
    by (simp add: failed_def thrown_def failing_env_def)
  show ?thesis
    using g f checkSession_never_throws [of sample_env signed_in_world]
      checkSession_never_throws [of failing_env signed_out_world]
    by (simp add: session_user_def signed_in_world_def signed_out_world_def signed_in_state_def
        thrown_def failing_env_def)
qed

subsection \<open>C8: the mappers keep the parsed instants\<close>

text \<open>
  \<^bold>\<open>Claim C8\<close>: for every wire row, the timestamp fields of the mapped model
  (\<open>created_at\<close> of an account; \<open>timestamp\<close> and \<open>created_at\<close> of a transaction) are exactly
  what parsing the row's string gives; when the string parses to an instant in the range of
  a date, that is its integer number of milliseconds since the epoch. An optional column
  that is null on the wire (the JavaScript value \<open>Null\<close>) is \<open>Undefined\<close> in the model, and no
  optional field of a mapped transaction is ever \<open>Null\<close>.
\<close>

theorem mappers_keep_parsed_instants:
  "Account.created_at (mapAccount parse arow) = Date_getTime parse (AccountRow.created_at arow)
   \<and> Transaction.timestamp (mapTransaction parse trow)
       = Date_getTime parse (TransactionRow.timestamp trow)
   \<and> Transaction.created_at (mapTransaction parse trow)
       = Date_getTime parse (TransactionRow.created_at trow)
   \<and> (\<forall>s ms. parse s = Some ms \<longrightarrow> \<bar>ms\<bar> \<le> 8640000000000000 \<longrightarrow>
         Date_getTime parse s = Num (of_int ms))
   \<and> (TransactionRow.notes trow = None \<longrightarrow>
         of_nullable (TransactionRow.notes trow) = Null
         \<and> Transaction.notes (mapTransaction parse trow) = Undefined)
   \<and> (TransactionRow.category trow = None \<longrightarrow>
         of_nullable (TransactionRow.category trow) = Null
         \<and> Transaction.category (mapTransaction parse trow) = Undefined)
   \<and> (TransactionRow.related_transaction_id trow = None \<longrightarrow>
         of_nullable (TransactionRow.related_transaction_id trow) = Null
         \<and> Transaction.related_transaction_id (mapTransaction parse trow) = Undefined)
   \<and> Transaction.notes (mapTransaction parse trow) \<noteq> Null
   \<and> Transaction.category (mapTransaction parse trow) \<noteq> Null
   \<and> Transaction.related_transaction_id (mapTransaction parse trow) \<noteq> Null"
  by (simp add: mapAccount_def mapTransaction_def Date_getTime_def or_undefined_def
      truthy_value_def of_nullable_def split: option.splits)

theorem mappers_keep_parsed_instants_witness:
  "sample_parse (AccountRow.created_at sample_account_row) = Some 1735689600000
   \<and> sample_parse (TransactionRow.timestamp sample_transaction_row) = Some 1735689600000
   \<and> sample_parse (TransactionRow.created_at sample_transaction_row) = Some 1735689601000
   \<and> TransactionRow.notes sample_transaction_row = None
   \<and> Account.created_at (mapAccount sample_parse sample_account_row) = Num 1735689600000
   \<and> Transaction.timestamp (mapTransaction sample_parse sample_transaction_row)
       = Num 1735689600000
   \<and> Transaction.created_at (mapTransaction sample_parse sample_transaction_row)
       = Num 1735689601000
   \<and> of_nullable (TransactionRow.notes sample_transaction_row) = Null
   \<and> Transaction.notes (mapTransaction sample_parse sample_transaction_row) = Undefined
   \<and> Transaction.category
        (mapTransaction sample_parse
          (sample_transaction_row\<lparr> TransactionRow.category := None,
                                   TransactionRow.related_transaction_id := None \<rparr>)) = Undefined
   \<and> Transaction.related_transaction_id
        (mapTransaction sample_parse
          (sample_transaction_row\<lparr> TransactionRow.category := None,
                                   TransactionRow.related_transaction_id := None \<rparr>)) = Undefined"
  using mappers_keep_parsed_instants [of sample_parse sample_account_row sample_transaction_row]
    mappers_keep_parsed_instants
      [of sample_parse sample_account_row
          "sample_transaction_row\<lparr> TransactionRow.category := None,
                                   TransactionRow.related_transaction_id := None \<rparr>"]
  by (simp add: sample_parse_def sample_account_row_def sample_transaction_row_def
      Date_getTime_def of_nullable_def)

subsection \<open>C9: actions without an authenticated user\<close>

text \<open>
  \<^bold>\<open>Claim C9\<close>: with no authenticated user, \<open>fetchAccounts\<close> and \<open>fetchTransactions\<close>
  return with no remote call and no state change, and \<open>addTransaction\<close> returns false
  with no remote call and no change either. The precondition is on add only:
  \<open>updateTransaction\<close> and \<open>deleteTransaction\<close> still send their mutation and return
  whether it succeeded.
\<close>

theorem no_user_short_circuits:
  assumes "AppState.user (state w) = None"
  shows "fetchAccounts env w = (Normal (), w)
         \<and> fetchTransactions env w = (Normal (), w)
         \<and> addTransaction env td w = (Normal False, w)
         \<and> fst (updateTransaction env i c w) = Normal (\<not> failed (mutation_result env))
         \<and> requests (snd (updateTransaction env i c w)) = requests w @ [Update_transaction c i]
         \<and> fst (deleteTransaction env i w) = Normal (\<not> failed (mutation_result env))
         \<and> requests (snd (deleteTransaction env i w)) = requests w @ [Delete_transaction i]"
  using assms
  by (simp add: fetchAccounts_no_user fetchTransactions_no_user addTransaction_no_user
      updateTransaction_no_user deleteTransaction_no_user)

theorem no_user_short_circuits_witness:
  "AppState.user (state signed_out_world) = None
   \<and> fetchAccounts sample_env signed_out_world = (Normal (), signed_out_world)
   \<and> fetchTransactions sample_env signed_out_world = (Normal (), signed_out_world)
   \<and> addTransaction sample_env sample_insert signed_out_world = (Normal False, signed_out_world)
   \<and> fst (updateTransaction sample_env (Num 7) sample_update signed_out_world) = Normal True
   \<and> requests (snd (updateTransaction sample_env (Num 7) sample_update signed_out_world))
       = [Update_transaction sample_update (Num 7)]
   \<and> fst (deleteTransaction sample_env (Num 7) signed_out_world) = Normal True
   \<and> requests (snd (deleteTransaction sample_env (Num 7) signed_out_world))
       = [Delete_transaction (Num 7)]"
proof -
  have u: "AppState.user (state signed_out_world) = None"
    by (simp add: signed_out_world_def)
  have f: "\<not> failed (mutation_result sample_env)"
    by (simp add: failed_def thrown_def sample_env_def)
  show ?thesis
    using u f no_user_short_circuits [OF u, of sample_env sample_insert "Num 7" sample_update]
    by (simp add: signed_out_world_def)
qed

subsection \<open>C10: falsy optional fields of a transaction row\<close>

text \<open>
  \<^bold>\<open>Claim C10\<close>: \<open>mapTransaction\<close> makes \<open>notes\<close>, \<open>category\<close> and
  \<open>related_transaction_id\<close> absent not only when the wire value is null but whenever it is
  falsy: an empty string for \<open>notes\<close> or \<open>category\<close>, and 0 (also \<open>-0\<close> and NaN) for
  \<open>related_transaction_id\<close> become \<open>Undefined\<close>; every other value is kept.
\<close>

theorem mapTransaction_drops_falsy_optionals:
  "Transaction.notes (mapTransaction parse row)
     = (case TransactionRow.notes row of None \<Rightarrow> Undefined
        | Some s \<Rightarrow> if s = [] then Undefined else Defined s)
   \<and> Transaction.category (mapTransaction parse row)
     = (case TransactionRow.category row of None \<Rightarrow> Undefined
        | Some s \<Rightarrow> if s = [] then Undefined else Defined s)
   \<and> Transaction.related_transaction_id (mapTransaction parse row)
     = (case TransactionRow.related_transaction_id row of None \<Rightarrow> Undefined
        | Some n \<Rightarrow> if n = Num 0 \<or> n = NegZero \<or> n = NaN then Undefined else Defined n)
   \<and> (TransactionRow.notes row = Some [] \<longrightarrow>
         Transaction.notes (mapTransaction parse row) = Undefined)
   \<and> (TransactionRow.category row = Some [] \<longrightarrow>
         Transaction.category (mapTransaction parse row) = Undefined)
   \<and> (TransactionRow.related_transaction_id row = Some (Num 0) \<longrightarrow>
         Transaction.related_transaction_id (mapTransaction parse row) = Undefined)"
  by (auto simp: mapTransaction_def or_undefined_def truthy_value_def of_nullable_def
      truthy_string_def truthy_number_def is_zero_def split: option.splits)

theorem mapTransaction_drops_falsy_optionals_witness:
  "TransactionRow.category sample_transaction_row = Some []
   \<and> TransactionRow.related_transaction_id sample_transaction_row = Some (Num 0)
   \<and> Transaction.category (mapTransaction sample_parse sample_transaction_row) = Undefined
   \<and> Transaction.related_transaction_id (mapTransaction sample_parse sample_transaction_row)
       = Undefined
   \<and> Transaction.notes
        (mapTransaction sample_parse (sample_transaction_row\<lparr> TransactionRow.notes := Some [] \<rparr>))
       = Undefined
   \<and> Transaction.notes
        (mapTransaction sample_parse (sample_transaction_row\<lparr> TransactionRow.notes := Some ''ok'' \<rparr>))
       = Defined ''ok''"
  using mapTransaction_drops_falsy_optionals [of sample_parse sample_transaction_row]
    mapTransaction_drops_falsy_optionals
      [of sample_parse "sample_transaction_row\<lparr> TransactionRow.notes := Some [] \<rparr>"]
    mapTransaction_drops_falsy_optionals
      [of sample_parse "sample_transaction_row\<lparr> TransactionRow.notes := Some ''ok'' \<rparr>"]
  by (simp add: sample_transaction_row_def)

subsection \<open>Further properties of the store\<close>

text \<open>
  \<^bold>\<open>X1\<close>: after a successful \<open>fetchAccounts\<close> or \<open>fetchTransactions\<close> with an authenticated
  user, the collection holds the mapped rows, the summaries equal their recomputation over
  the current collections, and the loading flag is false.
\<close>

theorem successful_fetch_recomputes_summaries:
  assumes "AppState.user (state w) \<noteq> None"
  shows "(select_accounts_result env = Fulfilled (Response (Some rows) None) \<longrightarrow>
            accounts (state (snd (fetchAccounts env w))) = map (mapAccount (Date_parse env)) rows
            \<and> summaries_current (state (snd (fetchAccounts env w)))
            \<and> isLoading (state (snd (fetchAccounts env w))) = False)
         \<and> (select_transactions_result env = Fulfilled (Response (Some trows) None) \<longrightarrow>
            transactions (state (snd (fetchTransactions env w)))
              = map (mapTransaction (Date_parse env)) trows
            \<and> summaries_current (state (snd (fetchTransactions env w)))
            \<and> isLoading (state (snd (fetchTransactions env w))) = False)"
proof -
  from assms obtain u where "AppState.user (state w) = Some u" by auto
  then show ?thesis
    by (auto simp: fetchAccounts_success fetchTransactions_success
        summaries_current_after_recalc)
       (simp_all add: recalculateSummaries_def)
qed

theorem successful_fetch_recomputes_summaries_witness:
  "AppState.user (state signed_in_world) \<noteq> None
   \<and> select_accounts_result sample_env = Fulfilled (Response (Some []) None)
   \<and> select_transactions_result sample_env = Fulfilled (Response (Some []) None)
   \<and> accounts (state (snd (fetchAccounts sample_env signed_in_world))) = []
   \<and> summaries_current (state (snd (fetchAccounts sample_env signed_in_world)))
   \<and> transactions (state (snd (fetchTransactions sample_env signed_in_world))) = []
   \<and> summaries_current (state (snd (fetchTransactions sample_env signed_in_world)))"
proof -
  have u: "AppState.user (state signed_in_world) \<noteq> None"
    by (simp add: signed_in_world_def signed_in_state_def)
  have r: "select_accounts_result sample_env = Fulfilled (Response (Some []) None)"
    "select_transactions_result sample_env = Fulfilled (Response (Some []) None)"
    by (simp_all add: sample_env_def)
  show ?thesis
    using u r successful_fetch_recomputes_summaries [OF u, of sample_env "[]" "[]"]
    by simp
qed

subsection \<open>Idempotence of the recomputation\<close>

text \<open>
  \<^bold>\<open>X2\<close>: recalculating the summaries twice in succession gives what recalculating
  once gives, and after a recalculation the summaries are current.
\<close>

theorem recalculateSummaries_idempotent:
  "recalculateSummaries (recalculateSummaries s) = recalculateSummaries s
   \<and> summaries_current (recalculateSummaries s)"
  by (simp add: summaries_current_def recalculateSummaries_twice)

subsection \<open>No sales, no ratio\<close>

text \<open>
  \<^bold>\<open>X3\<close> (Scenario C): when no transaction has type Sale the ratio is the sentinel.
\<close>

theorem no_sales_no_ratio:
  assumes "sales (transactions st) = []"
  shows "dollarPerGramRatio (recalculateSummaries st) = None"
  using assms by (simp add: recalculateSummaries_def totalSalesWeight_def fgt_def)

theorem no_sales_no_ratio_witness:
  "sales [sample_transaction ''Purchase'' (Num (- 20)) (Num 10)] = []
   \<and> dollarPerGramRatio
        (recalculateSummaries
          (initialState\<lparr> transactions := [sample_transaction ''Purchase'' (Num (- 20)) (Num 10)] \<rparr>))
       = None"
proof -
  have s: "sales [sample_transaction ''Purchase'' (Num (- 20)) (Num 10)] = []"
    by (simp add: sales_def sample_transaction_def)
  show ?thesis
    using s no_sales_no_ratio
      [of "initialState\<lparr> transactions := [sample_transaction ''Purchase'' (Num (- 20)) (Num 10)] \<rparr>"]
    by simp
qed

subsection \<open>A successful mutation resynchronises the store\<close>

text \<open>
  \<^bold>\<open>X4\<close>: when the user is authenticated, the remote mutation succeeds and both
  selects that follow succeed, \<open>addTransaction\<close>, \<open>updateTransaction\<close> and
  \<open>deleteTransaction\<close> return true and leave the same state: both collections replaced
  by the mapped rows, the summaries recomputed over them, the loading flag false.
\<close>

theorem successful_mutation_resynchronises:
  assumes "AppState.user (state w) \<noteq> None"
    and "\<not> failed (mutation_result env)"
    and "select_accounts_result env = Fulfilled (Response (Some rows) None)"
    and "select_transactions_result env = Fulfilled (Response (Some trows) None)"
  shows "fst (addTransaction env td w) = Normal True
         \<and> fst (updateTransaction env i c w) = Normal True
         \<and> fst (deleteTransaction env i w) = Normal True
         \<and> state (snd (addTransaction env td w))
             = (recalculateSummaries ((state w)
                  \<lparr> accounts := map (mapAccount (Date_parse env)) rows,
                    transactions := map (mapTransaction (Date_parse env)) trows \<rparr>))
                 \<lparr> isLoading := False \<rparr>
         \<and> state (snd (updateTransaction env i c w)) = state (snd (addTransaction env td w))
         \<and> state (snd (deleteTransaction env i w)) = state (snd (addTransaction env td w))
         \<and> summaries_current (state (snd (addTransaction env td w)))"
proof -
  from assms(1) obtain u where u: "AppState.user (state w) = Some u" by auto
  from assms(2) obtain d where d: "mutation_result env = Fulfilled (Response d None)"
    by (auto simp: failed_def dest: thrown_NoneD)
  show ?thesis
    by (simp add: mutation_success [OF u d assms(3,4)] summaries_current_after_recalc)
qed

theorem successful_mutation_resynchronises_witness:
  "AppState.user (state signed_in_world) \<noteq> None
   \<and> \<not> failed (mutation_result sample_env)
   \<and> fst (addTransaction sample_env sample_insert signed_in_world) = Normal True
   \<and> accounts (state (snd (addTransaction sample_env sample_insert signed_in_world))) = []
   \<and> overallNetCash (state (snd (addTransaction sample_env sample_insert signed_in_world))) = Num 0
   \<and> summaries_current (state (snd (addTransaction sample_env sample_insert signed_in_world)))"
proof -
  have u: "AppState.user (state signed_in_world) \<noteq> None"
    by (simp add: signed_in_world_def signed_in_state_def)
  have f: "\<not> failed (mutation_result sample_env)"
    by (simp add: failed_def thrown_def sample_env_def)
  have r: "select_accounts_result sample_env = Fulfilled (Response (Some []) None)"
    "select_transactions_result sample_env = Fulfilled (Response (Some []) None)"
    by (simp_all add: sample_env_def)
  show ?thesis
    using u f
      successful_mutation_resynchronises [OF u f r, of sample_insert "Num 7" sample_update]
    by (simp add: recalculateSummaries_def totalSalesWeight_def sales_def fgt_def
        summaries_current_def)
qed

end
